theory Spec2Isabelle
  imports Main
begin

section \<open>Shared data\<close>

text \<open>
  Identifiers and e-mail addresses are strings. A point in time (a JavaScript \<open>Date\<close>, a
  Postgres timestamp, \<open>NOW()\<close>) is its number of milliseconds since the epoch. The current
  time and freshly generated identifiers are arguments of the operations that read them.
\<close>

type_synonym uid = string
type_synonym time = int

datatype inv_status = Pending | Accepted | Rejected

datatype task_status = TaskPending | InProgress | Completed

text \<open>
  Project settings. A flag that is absent from the stored object reads as \<open>undefined\<close>
  (\<open>None\<close>); the settings object itself may be absent, which \<open>settings?.flag\<close> also
  reads as \<open>undefined\<close>. \<open>flag\<close> is the truthiness of \<open>settings?.f\<close>.
\<close>

record settings =
  allowMemberTaskEdit :: "bool option"
  allowMemberTaskCreate :: "bool option"
  allowMemberInvite :: "bool option"

definition flag :: "settings option \<Rightarrow> (settings \<Rightarrow> bool option) \<Rightarrow> bool" where
  "flag s f = (case s of None \<Rightarrow> False | Some r \<Rightarrow> f r = Some True)"

fun findIndex :: "('a \<Rightarrow> bool) \<Rightarrow> 'a list \<Rightarrow> nat option" where
  "findIndex P [] = None"
| "findIndex P (x # xs) = (if P x then Some 0 else map_option Suc (findIndex P xs))"

section \<open>Client: the localStorage-backed DataService (src/services/dataService.ts)\<close>

text \<open>
  The records hold the fields the modelled methods read or write, and the title; the
  remaining fields of a project or task (description, priority, tags, ...) are carried along
  by the same spreads and are left out.
\<close>

record project =
  projectId :: string
  title :: string
  ownerId :: uid
  members :: "uid list"
  settings :: "settings option"
  updatedAt :: time

record invitation =
  invitationId :: string
  i_projectId :: string
  inviterUserId :: uid
  inviteeEmail :: string
  i_status :: inv_status
  i_createdAt :: time
  expiresAt :: time

record task =
  taskId :: string
  t_projectId :: string
  t_title :: string
  t_description :: string
  t_status :: task_status
  assignee :: "uid option"
  completedAt :: "time option"
  t_updatedAt :: time

text \<open>
  \<open>Partial<Task>\<close>: every field may be absent (\<open>None\<close>). For the optional fields
  \<open>assignee\<close> and \<open>completedAt\<close> a present field may itself hold \<open>undefined\<close>.
\<close>

record task_updates =
  u_taskId :: "string option"
  u_projectId :: "string option"
  u_title :: "string option"
  u_description :: "string option"
  u_status :: "task_status option"
  u_assignee :: "uid option option"
  u_completedAt :: "time option option"
  u_updatedAt :: "time option"

text \<open>
  The three localStorage keys the modelled methods read and write, and the key of the user
  sessions, the only place where the client keeps a user's e-mail address (none of the
  modelled methods reads it). \<open>saveToStorage\<close> catches
  the exception of a failing \<open>localStorage.setItem\<close> (a full quota) and only logs it, so a
  save may leave the stored value as it was: \<open>w k\<close> says that writing key \<open>k\<close> succeeds.
  Reads are taken to parse.
\<close>

record session =
  s_userId :: uid
  s_email :: string
  s_isActive :: bool

record store =
  PROJECTS :: "project list"
  INVITATIONS :: "invitation list"
  TASKS :: "task list"
  USER_SESSIONS :: "session list"

datatype storage_key = KPROJECTS | KINVITATIONS | KTASKS

definition saveProjects :: "(storage_key \<Rightarrow> bool) \<Rightarrow> store \<Rightarrow> project list \<Rightarrow> store" where
  "saveProjects w st ps = (if w KPROJECTS then st\<lparr>PROJECTS := ps\<rparr> else st)"

definition saveInvitations :: "(storage_key \<Rightarrow> bool) \<Rightarrow> store \<Rightarrow> invitation list \<Rightarrow> store" where
  "saveInvitations w st invs = (if w KINVITATIONS then st\<lparr>INVITATIONS := invs\<rparr> else st)"

definition saveTasks :: "(storage_key \<Rightarrow> bool) \<Rightarrow> store \<Rightarrow> task list \<Rightarrow> store" where
  "saveTasks w st ts = (if w KTASKS then st\<lparr>TASKS := ts\<rparr> else st)"

datatype client_error = Error string

definition getProject :: "store \<Rightarrow> string \<Rightarrow> uid \<Rightarrow> project option" where
  "getProject st pid userId =
     (case find (\<lambda>p. projectId p = pid) (PROJECTS st) of
        None \<Rightarrow> None
      | Some project \<Rightarrow>
          if ownerId project \<noteq> userId \<and> userId \<notin> set (members project) then None
          else Some project)"

definition createInvitation ::
  "store \<Rightarrow> (storage_key \<Rightarrow> bool) \<Rightarrow> time \<Rightarrow> string \<Rightarrow> string \<Rightarrow> uid \<Rightarrow> string
     \<Rightarrow> client_error + (invitation \<times> store)" where
  "createInvitation st w now newId pid inviter email =
     (case getProject st pid inviter of
        None \<Rightarrow> Inl (Error ''Project not found or access denied'')
      | Some project \<Rightarrow>
          if ownerId project \<noteq> inviter
          then Inl (Error ''Only the project owner can invite members'')
          else
            (case find (\<lambda>i. i_projectId i = pid \<and> inviteeEmail i = email \<and> i_status i = Pending)
                    (INVITATIONS st) of
               Some existingInvitation \<Rightarrow> Inl (Error ''Invitation already sent to this email'')
             | None \<Rightarrow>
                 (let invitation =
                        \<lparr> invitationId = newId, i_projectId = pid, inviterUserId = inviter,
                          inviteeEmail = email, i_status = Pending, i_createdAt = now,
                          expiresAt = now + 7 * 24 * 60 * 60 * 1000 \<rparr>
                  in Inr (invitation, saveInvitations w st (INVITATIONS st @ [invitation])))))"

definition acceptInvitation ::
  "store \<Rightarrow> (storage_key \<Rightarrow> bool) \<Rightarrow> time \<Rightarrow> string \<Rightarrow> uid \<Rightarrow> bool \<times> store" where
  "acceptInvitation st w now invId userId =
     (case findIndex (\<lambda>i. invitationId i = invId) (INVITATIONS st) of
        None \<Rightarrow> (False, st)
      | Some invitationIndex \<Rightarrow>
          (let invitation = INVITATIONS st ! invitationIndex in
           if i_status invitation \<noteq> Pending \<or> expiresAt invitation \<le> now then (False, st)
           else
             (let st1 = saveInvitations w st
                          ((INVITATIONS st)[invitationIndex := invitation\<lparr>i_status := Accepted\<rparr>])
              in case findIndex (\<lambda>p. projectId p = i_projectId invitation) (PROJECTS st1) of
                   None \<Rightarrow> (True, st1)
                 | Some projectIndex \<Rightarrow>
                     (let p = PROJECTS st1 ! projectIndex in
                      if userId \<notin> set (members p)
                      then (True, saveProjects w st1 ((PROJECTS st1)[projectIndex :=
                                    p\<lparr>members := members p @ [userId], updatedAt := now\<rparr>]))
                      else (True, st1)))))"


definition getTasksByProject :: "store \<Rightarrow> string \<Rightarrow> uid \<Rightarrow> task list" where
  "getTasksByProject st pid userId =
     (case getProject st pid userId of
        None \<Rightarrow> []
      | Some project \<Rightarrow> filter (\<lambda>t. t_projectId t = pid) (TASKS st))"

text \<open>The object spread \<open>{...task, ...updates, updatedAt: now}\<close>.\<close>

definition spread :: "'a \<Rightarrow> 'a option \<Rightarrow> 'a" where
  "spread old new = (case new of None \<Rightarrow> old | Some v \<Rightarrow> v)"

definition mergeTask :: "task \<Rightarrow> task_updates \<Rightarrow> time \<Rightarrow> task" where
  "mergeTask t u now =
     \<lparr> taskId = spread (taskId t) (u_taskId u),
       t_projectId = spread (t_projectId t) (u_projectId u),
       t_title = spread (t_title t) (u_title u),
       t_description = spread (t_description t) (u_description u),
       t_status = spread (t_status t) (u_status u),
       assignee = spread (assignee t) (u_assignee u),
       completedAt = spread (completedAt t) (u_completedAt u),
       t_updatedAt = now \<rparr>"

definition canEdit :: "project \<Rightarrow> task \<Rightarrow> uid \<Rightarrow> bool" where
  "canEdit project t userId =
     (let isOwner = (ownerId project = userId);
          isAssignee = (assignee t = Some userId)
      in isOwner \<or> (isAssignee \<and> flag (settings project) allowMemberTaskEdit))"

definition updateTask ::
  "store \<Rightarrow> (storage_key \<Rightarrow> bool) \<Rightarrow> time \<Rightarrow> string \<Rightarrow> task_updates \<Rightarrow> uid
     \<Rightarrow> client_error + (task option \<times> store)" where
  "updateTask st w now tid updates userId =
     (case findIndex (\<lambda>t. taskId t = tid) (TASKS st) of
        None \<Rightarrow> Inr (None, st)
      | Some taskIndex \<Rightarrow>
          (let t = TASKS st ! taskIndex in
           case getProject st (t_projectId t) userId of
             None \<Rightarrow> Inl (Error ''Project not found or access denied'')
           | Some project \<Rightarrow>
               if \<not> canEdit project t userId
               then Inl (Error ''You do not have permission to edit this task'')
               else
                 (let merged = mergeTask t updates now;
                      updatedTask =
                        (if u_status updates = Some Completed \<and> t_status t \<noteq> Completed
                         then merged\<lparr>completedAt := Some now\<rparr> else merged)
                  in Inr (Some updatedTask,
                          saveTasks w st ((TASKS st)[taskIndex := updatedTask])))))"

definition removeMember ::
  "store \<Rightarrow> (storage_key \<Rightarrow> bool) \<Rightarrow> time \<Rightarrow> string \<Rightarrow> uid \<Rightarrow> uid
     \<Rightarrow> client_error + (bool \<times> store)" where
  "removeMember st w now pid memberUserId currentUserId =
     (case getProject st pid currentUserId of
        None \<Rightarrow> Inr (False, st)
      | Some project \<Rightarrow>
          if ownerId project \<noteq> currentUserId
          then Inl (Error ''Only the project owner can remove members'')
          else if memberUserId = ownerId project
          then Inl (Error ''Cannot remove the project owner'')
          else
            (case findIndex (\<lambda>p. projectId p = pid) (PROJECTS st) of
               Some projectIndex \<Rightarrow>
                 (let p = PROJECTS st ! projectIndex in
                  Inr (True, saveProjects w st ((PROJECTS st)[projectIndex :=
                         p\<lparr>members := filter (\<lambda>memberId. memberId \<noteq> memberUserId) (members p),
                           updatedAt := now\<rparr>])))
             | None \<Rightarrow> Inr (False, st)))"

section \<open>Server: the Express routes over Postgres (backend/routes)\<close>

text \<open>
  Tables are lists of rows. The status column of \<open>invitations\<close> admits the four values of
  its CHECK constraint. A task row is kept as the row object the driver returns: a function
  from column names to values, so that every column is present in the model. The
  authenticated user \<open>req.user\<close> is a row of \<open>users\<close>.
\<close>

datatype db_status = pending | accepted | rejected | expired

record user_row =
  u_id :: uid
  u_name :: string
  u_email :: string
  is_active :: bool

record project_row =
  p_id :: string
  p_title :: string
  owner_id :: uid
  p_settings :: "settings option"

record member_row =
  pm_project_id :: string
  pm_user_id :: uid

record invitation_row =
  inv_id :: string
  project_id :: string
  inviter_id :: uid
  invitee_email :: string
  status :: db_status
  expires_at :: time
  accepted_at :: "time option"
  created_at :: time

datatype jval = JNull | JBool bool | JNum int | JStr string | JTime time
  | JArr "jval list" | JObj "(string \<times> jval) list"

type_synonym row = "string \<Rightarrow> jval"

text \<open>A JSON request body: a key that is absent reads as \<open>undefined\<close> (\<open>None\<close>).\<close>

type_synonym body = "string \<Rightarrow> jval option"

record db =
  users :: "user_row list"
  projects :: "project_row list"
  project_members :: "member_row list"
  invitations :: "invitation_row list"
  tasks :: "row list"

text \<open>A response: HTTP status, the \<open>message\<close> field, and the \<open>data\<close> payload if any.\<close>

datatype 'a response = Response (code: nat) (message: string) (payload: "'a option")

text \<open>The result of a Joi schema validation of the request body.\<close>

datatype 'a joi = JoiError string | JoiValue 'a

definition innerJoin :: "'a list \<Rightarrow> 'b list \<Rightarrow> ('a \<Rightarrow> 'b \<Rightarrow> bool) \<Rightarrow> ('a \<times> 'b) list" where
  "innerJoin xs ys on = concat (map (\<lambda>x. map (Pair x) (filter (on x) ys)) xs)"

definition leftJoin :: "'a list \<Rightarrow> 'b list \<Rightarrow> ('a \<Rightarrow> 'b \<Rightarrow> bool) \<Rightarrow> ('a \<times> 'b option) list" where
  "leftJoin xs ys on =
     concat (map (\<lambda>x. case filter (on x) ys of
                         [] \<Rightarrow> [(x, None)]
                       | ms \<Rightarrow> map (\<lambda>y. (x, Some y)) ms) xs)"

subsection \<open>POST /invitations\<close>

definition projectQuery :: "db \<Rightarrow> string \<Rightarrow> uid \<Rightarrow> (project_row \<times> member_row option) list" where
  "projectQuery d pid userId =
     filter (\<lambda>(p, pm). p_id p = pid)
       (leftJoin (projects d) (project_members d)
          (\<lambda>p pm. pm_project_id pm = p_id p \<and> pm_user_id pm = userId))"

definition canInvite :: "project_row \<Rightarrow> member_row option \<Rightarrow> uid \<Rightarrow> bool" where
  "canInvite p is_member userId =
     (let isOwner = (owner_id p = userId);
          isMember = (is_member \<noteq> None)
      in isOwner \<or> (isMember \<and> flag (p_settings p) allowMemberInvite))"

definition existingMemberQuery :: "db \<Rightarrow> string \<Rightarrow> string \<Rightarrow> (member_row \<times> user_row) list" where
  "existingMemberQuery d pid email =
     filter (\<lambda>(pm, u). pm_project_id pm = pid \<and> u_email u = email)
       (innerJoin (project_members d) (users d) (\<lambda>pm u. u_id u = pm_user_id pm))"

definition existingInvitationQuery :: "db \<Rightarrow> time \<Rightarrow> string \<Rightarrow> string \<Rightarrow> invitation_row list" where
  "existingInvitationQuery d now pid email =
     filter (\<lambda>i. project_id i = pid \<and> invitee_email i = email \<and> status i = pending
                 \<and> expires_at i > now) (invitations d)"

text \<open>
  \<open>lower\<close> is JavaScript's \<open>toLowerCase\<close> on strings, an argument of the handler;
  \<open>mailSent\<close> says that sending the e-mail does not throw.
\<close>

definition postInvitation ::
  "db \<Rightarrow> time \<Rightarrow> string \<Rightarrow> bool \<Rightarrow> (string \<Rightarrow> string) \<Rightarrow> (string \<times> string) joi
     \<Rightarrow> user_row \<Rightarrow> invitation_row response \<times> db" where
  "postInvitation d now newId mailSent lower validated user =
     (case validated of
        JoiError details \<Rightarrow> (Response 400 ''Validation error'' None, d)
      | JoiValue (email, pid) \<Rightarrow>
          (case projectQuery d pid (u_id user) of
             [] \<Rightarrow> (Response 404 ''Project not found'' None, d)
           | (p, is_member) # _ \<Rightarrow>
               if \<not> canInvite p is_member (u_id user)
               then (Response 403 ''You do not have permission to invite members'' None, d)
               else if existingMemberQuery d pid (lower email) \<noteq> []
               then (Response 409 ''User is already a member of this project'' None, d)
               else if existingInvitationQuery d now pid (lower email) \<noteq> []
               then (Response 409 ''Invitation already sent to this email'' None, d)
               else
                 (let invitation = \<lparr> inv_id = newId, project_id = pid, inviter_id = u_id user,
                               invitee_email = lower email, status = pending,
                               expires_at = now + 7 * 24 * 60 * 60 * 1000,
                               accepted_at = None, created_at = now \<rparr>;
                      d' = d\<lparr>invitations := invitations d @ [invitation]\<rparr>
                  in if mailSent
                     then (Response 201 ''Invitation sent successfully'' (Some invitation), d')
                     else (Response 500 ''Failed to send invitation'' None, d'))))"

subsection \<open>POST /invitations/:id/accept and /reject\<close>

text \<open>
  The statements of the accept handler, in the order it issues them. \<open>fails s\<close> says that
  statement \<open>s\<close> throws; every throw ends in the handler's 500 answer. The statements between
  BEGIN and COMMIT take effect together at COMMIT, and the catch block's ROLLBACK discards
  them.
\<close>

datatype stmt = SelectInvitation | MemberCheck | UpdateInvitation
  | Connect | Begin | InsertMember | UpdateInvitationTx | Commit

definition invitationQuery :: "db \<Rightarrow> time \<Rightarrow> string \<Rightarrow> (invitation_row \<times> project_row) list" where
  "invitationQuery d now invId =
     filter (\<lambda>(i, p). inv_id i = invId \<and> status i = pending \<and> expires_at i > now)
       (innerJoin (invitations d) (projects d) (\<lambda>i p. p_id p = project_id i))"

definition memberCheckQuery :: "db \<Rightarrow> string \<Rightarrow> uid \<Rightarrow> member_row list" where
  "memberCheckQuery d pid userId =
     filter (\<lambda>pm. pm_project_id pm = pid \<and> pm_user_id pm = userId) (project_members d)"

definition markAccepted :: "db \<Rightarrow> time \<Rightarrow> string \<Rightarrow> db" where
  "markAccepted d now invId =
     d\<lparr>invitations := map (\<lambda>i. if inv_id i = invId
                                then i\<lparr>status := accepted, accepted_at := Some now\<rparr> else i)
                          (invitations d)\<rparr>"

definition insertMember :: "db \<Rightarrow> string \<Rightarrow> uid \<Rightarrow> db" where
  "insertMember d pid userId =
     d\<lparr>project_members := project_members d @ [\<lparr>pm_project_id = pid, pm_user_id = userId\<rparr>]\<rparr>"

definition failed :: "string response" where
  "failed = Response 500 ''Failed to accept invitation'' None"

definition acceptRoute ::
  "db \<Rightarrow> time \<Rightarrow> (stmt \<Rightarrow> bool) \<Rightarrow> string \<Rightarrow> user_row \<Rightarrow> string response \<times> db" where
  "acceptRoute d now fails invId user =
     (if fails SelectInvitation then (failed, d)
      else case invitationQuery d now invId of
        [] \<Rightarrow> (Response 404 ''Invitation not found, expired, or already processed'' None, d)
      | (invitation, p) # _ \<Rightarrow>
          if invitee_email invitation \<noteq> u_email user
          then (Response 403 ''This invitation is not for your email address'' None, d)
          else if fails MemberCheck then (failed, d)
          else if memberCheckQuery d (project_id invitation) (u_id user) \<noteq> []
          then (if fails UpdateInvitation then (failed, d)
                else (Response 200 ''You are already a member of this project'' None,
                      markAccepted d now invId))
          else if fails Connect then (failed, d)
          else if fails Begin \<or> fails InsertMember \<or> fails UpdateInvitationTx \<or> fails Commit
          then (failed, d)
          else (Response 200
                  (''Successfully joined '' @ [CHR 0x22] @ p_title p @ [CHR 0x22] @ '' project!'')
                  (Some (project_id invitation)),
                markAccepted (insertMember d (project_id invitation) (u_id user)) now invId))"


subsection \<open>GET /tasks/project/:projectId and GET /projects/:id\<close>

text \<open>
  Both reads decide access with a join of \<open>projects\<close> and \<open>project_members\<close>. The payload of
  a successful read is modelled by the rows it is computed from (the project's task rows,
  the project row); the columns joined to them for display and the ordering of the task
  list are left out.
\<close>

definition visible :: "uid \<Rightarrow> project_row \<times> member_row option \<Rightarrow> bool" where
  "visible userId r =
     (case r of (p, pm) \<Rightarrow>
        owner_id p = userId \<or> (case pm of None \<Rightarrow> False | Some m \<Rightarrow> pm_user_id m = userId))"

definition accessQuery :: "db \<Rightarrow> string \<Rightarrow> uid \<Rightarrow> (project_row \<times> member_row option) list" where
  "accessQuery d pid userId =
     filter (\<lambda>r. p_id (fst r) = pid \<and> visible userId r)
       (leftJoin (projects d) (project_members d) (\<lambda>p pm. pm_project_id pm = p_id p))"

definition getTasksRoute :: "db \<Rightarrow> string \<Rightarrow> user_row \<Rightarrow> row list response" where
  "getTasksRoute d pid user =
     (if accessQuery d pid (u_id user) = []
      then Response 403 ''Access denied to project'' None
      else Response 200 [] (Some (filter (\<lambda>t. t ''project_id'' = JStr pid) (tasks d))))"

definition singleProjectQuery ::
  "db \<Rightarrow> string \<Rightarrow> uid \<Rightarrow> ((project_row \<times> user_row) \<times> member_row option) list" where
  "singleProjectQuery d pid userId =
     filter (\<lambda>((p, u), pm). p_id p = pid \<and> visible userId (p, pm))
       (leftJoin (innerJoin (projects d) (users d) (\<lambda>p u. u_id u = owner_id p))
          (project_members d) (\<lambda>(p, u) pm. pm_project_id pm = p_id p))"

definition getProjectRoute :: "db \<Rightarrow> string \<Rightarrow> user_row \<Rightarrow> project_row response" where
  "getProjectRoute d pid user =
     (case singleProjectQuery d pid (u_id user) of
        [] \<Rightarrow> Response 404 ''Project not found or access denied'' None
      | ((p, u), pm) # _ \<Rightarrow> Response 200 [] (Some p))"

subsection \<open>PUT /tasks/:id\<close>

definition taskQuery ::
  "db \<Rightarrow> string \<Rightarrow> uid \<Rightarrow> ((row \<times> project_row) \<times> member_row option) list" where
  "taskQuery d tid userId =
     filter (\<lambda>((t, p), pm). t ''id'' = JStr tid)
       (leftJoin (innerJoin (tasks d) (projects d) (\<lambda>t p. JStr (p_id p) = t ''project_id''))
          (project_members d)
          (\<lambda>(t, p) pm. pm_project_id pm = p_id p \<and> pm_user_id pm = userId))"

definition canEditRoute :: "row \<Rightarrow> project_row \<Rightarrow> member_row option \<Rightarrow> uid \<Rightarrow> bool" where
  "canEditRoute t p is_member userId =
     (let isOwner = (owner_id p = userId);
          isAssignee = (t ''assignee_id'' = JStr userId);
          isMember = (is_member \<noteq> None)
      in isOwner \<or> isAssignee \<or> (isMember \<and> flag (p_settings p) allowMemberTaskEdit))"

definition allowedFields :: "string list" where
  "allowedFields = [''title'', ''description'', ''status'', ''priority'', ''assignee_id'',
     ''due_date'', ''estimate'', ''milestone_id'', ''time_spent'', ''styling'']"

text \<open>
  \<open>field.replace(/_([a-z])/g, (_, letter) => letter.toUpperCase())\<close>: scanning from the left,
  an underscore followed by a lower-case letter is replaced by the upper-case letter.
\<close>

definition isLower :: "char \<Rightarrow> bool" where
  "isLower c = (let n = (of_char c :: nat) in 97 \<le> n \<and> n \<le> 122)"

definition upperChar :: "char \<Rightarrow> char" where
  "upperChar c = char_of ((of_char c :: nat) - 32)"

fun camel :: "string \<Rightarrow> string" where
  "camel (a # b # cs) =
     (if a = CHR ''_'' \<and> isLower b then upperChar b # camel cs else a # camel (b # cs))"
| "camel cs = cs"

text \<open>JavaScript truthiness of a JSON value.\<close>

fun truthy :: "jval \<Rightarrow> bool" where
  "truthy JNull = False"
| "truthy (JBool b) = b"
| "truthy (JNum n) = (n \<noteq> 0)"
| "truthy (JStr s) = (s \<noteq> [])"
| "truthy v = True"

text \<open>
  One round of the loop over \<open>allowedFields\<close>: no assignment when the body has neither the
  camel-case nor the snake-case key, else one assignment of the converted value.
  \<open>JSON.stringify\<close> is an argument.
\<close>

definition requested :: "body \<Rightarrow> string \<Rightarrow> jval option" where
  "requested b field = (case b (camel field) of Some v \<Rightarrow> Some v | None \<Rightarrow> b field)"

definition pushed :: "(jval \<Rightarrow> string) \<Rightarrow> string \<Rightarrow> jval \<Rightarrow> jval" where
  "pushed stringify field v =
     (if field = ''assignee_id'' then (if v = JStr [] then JNull else v)
      else if field = ''styling'' then (if truthy v then JStr (stringify v) else JNull)
      else v)"

definition assignment :: "(jval \<Rightarrow> string) \<Rightarrow> body \<Rightarrow> string \<Rightarrow> (string \<times> jval) list" where
  "assignment stringify b field =
     (case requested b field of
        None \<Rightarrow> []
      | Some v \<Rightarrow> [(field, pushed stringify field v)])"

definition updateFields :: "(jval \<Rightarrow> string) \<Rightarrow> body \<Rightarrow> row \<Rightarrow> time \<Rightarrow> (string \<times> jval) list" where
  "updateFields stringify b t now =
     concat (map (assignment stringify b) allowedFields)
     @ (if b ''status'' = Some (JStr ''completed'') \<and> t ''status'' \<noteq> JStr ''completed''
        then [(''completed_at'', JTime now)] else [])"

definition setColumns :: "(string \<times> jval) list \<Rightarrow> row \<Rightarrow> row" where
  "setColumns sets r = fold (\<lambda>(c, v) r'. r'(c := v)) sets r"

definition updateQuery :: "db \<Rightarrow> time \<Rightarrow> string \<Rightarrow> (string \<times> jval) list \<Rightarrow> db" where
  "updateQuery d now tid sets =
     d\<lparr>tasks := map (\<lambda>r. if r ''id'' = JStr tid
                          then (setColumns sets r)(''updated_at'' := JTime now) else r)
                    (tasks d)\<rparr>"

text \<open>
  \<open>dbAccepts sets\<close> says that Postgres executes the UPDATE with these assignments (types,
  CHECK and foreign-key constraints hold); when it throws, the handler answers 500.
\<close>

definition putTask ::
  "db \<Rightarrow> time \<Rightarrow> (jval \<Rightarrow> string) \<Rightarrow> ((string \<times> jval) list \<Rightarrow> bool) \<Rightarrow> string \<Rightarrow> body
     \<Rightarrow> user_row \<Rightarrow> row response \<times> db" where
  "putTask d now stringify dbAccepts tid b user =
     (case taskQuery d tid (u_id user) of
        [] \<Rightarrow> (Response 404 ''Task not found'' None, d)
      | ((t, p), is_member) # _ \<Rightarrow>
          if \<not> canEditRoute t p is_member (u_id user)
          then (Response 403 ''You do not have permission to edit this task'' None, d)
          else
            (let sets = updateFields stringify b t now in
             if sets = [] then (Response 400 ''No valid fields to update'' None, d)
             else if \<not> dbAccepts sets then (Response 500 ''Failed to update task'' None, d)
             else
               (let d' = updateQuery d now tid sets in
                (Response 200 ''Task updated successfully''
                   (find (\<lambda>r. r ''id'' = JStr tid) (tasks d')), d'))))"

subsection \<open>DELETE /projects/:id/members/:userId\<close>

definition ownerCheckQuery :: "db \<Rightarrow> string \<Rightarrow> uid \<Rightarrow> project_row list" where
  "ownerCheckQuery d pid userId =
     filter (\<lambda>p. p_id p = pid \<and> owner_id p = userId) (projects d)"

text \<open>
  Postgres reads the two URL parameters as values of type uuid: \<open>uuid_in s\<close> is the stored
  text of the uuid that \<open>s\<close> denotes (upper-case digits, braces and missing hyphens are
  accepted spellings), or \<open>None\<close> when \<open>s\<close> is not a uuid, in which case the statement
  throws and the handler answers 500. The requester's id \<open>req.user.id\<close> was read from the
  database and is in stored form. The guard against removing the owner is a JavaScript
  \<open>===\<close> on the raw parameter \<open>userIdParam\<close>.
\<close>

definition removeMemberRoute ::
  "db \<Rightarrow> (string \<Rightarrow> uid option) \<Rightarrow> string \<Rightarrow> string \<Rightarrow> user_row \<Rightarrow> unit response \<times> db" where
  "removeMemberRoute d uuid_in projectIdParam userIdParam user =
     (case uuid_in projectIdParam of
        None \<Rightarrow> (Response 500 ''Failed to remove member'' None, d)
      | Some pid \<Rightarrow>
          if ownerCheckQuery d pid (u_id user) = []
          then (Response 403 ''Only project owner can remove members'' None, d)
          else if userIdParam = u_id user
          then (Response 400 ''Cannot remove project owner'' None, d)
          else
            (case uuid_in userIdParam of
               None \<Rightarrow> (Response 500 ''Failed to remove member'' None, d)
             | Some uid \<Rightarrow>
                 (let hit = (\<lambda>pm. pm_project_id pm = pid \<and> pm_user_id pm = uid);
                      rowCount = length (filter hit (project_members d))
                  in if rowCount = 0
                     then (Response 404 ''Member not found in project'' None,
                           d\<lparr>project_members := filter (\<lambda>pm. \<not> hit pm) (project_members d)\<rparr>)
                     else (Response 200 ''Member removed successfully'' None,
                           d\<lparr>project_members := filter (\<lambda>pm. \<not> hit pm) (project_members d)\<rparr>))))"

text \<open>
  Both writes of an acceptance are in the database: every invitation with the id is
  accepted, and the user has a membership row for the project of such an invitation.
\<close>

definition joined :: "db \<Rightarrow> string \<Rightarrow> uid \<Rightarrow> bool" where
  "joined d invId userId \<longleftrightarrow>
     (\<forall>i\<in>set (invitations d). inv_id i = invId \<longrightarrow> status i = accepted)
     \<and> (\<exists>i\<in>set (invitations d). inv_id i = invId
           \<and> (\<exists>pm\<in>set (project_members d).
                 pm_project_id pm = project_id i \<and> pm_user_id pm = userId))"

text \<open>A caller that issues a sequence of \<open>updateTask\<close> calls, each at its own time.\<close>

fun runUpdates ::
  "store \<Rightarrow> (storage_key \<Rightarrow> bool) \<Rightarrow> string \<Rightarrow> uid \<Rightarrow> (time \<times> task_updates) list \<Rightarrow> store" where
  "runUpdates st w tid userId [] = st"
| "runUpdates st w tid userId ((now, u) # rest) =
     (case updateTask st w now tid u userId of
        Inl e \<Rightarrow> runUpdates st w tid userId rest
      | Inr (t, st') \<Rightarrow> runUpdates st' w tid userId rest)"


section \<open>Example states\<close>

text \<open>
  One project ``Launch'' with owner \<open>o\<close> and member \<open>m\<close>, the default settings, one
  pending invitation for \<open>a@x.com\<close> that expires at time 1000, and one task; once
  in the client's store and once in the server's tables. User \<open>a\<close> is not a member.
\<close>

definition defaultSettings :: settings where
  "defaultSettings = \<lparr> allowMemberTaskEdit = Some True, allowMemberTaskCreate = Some False,
                        allowMemberInvite = Some False \<rparr>"

definition exProject :: project where
  "exProject = \<lparr> projectId = ''p1'', title = ''Launch'', ownerId = ''o'',
                  members = [''o'', ''m''], settings = Some defaultSettings, updatedAt = 0 \<rparr>"

definition exInvitation :: invitation where
  "exInvitation = \<lparr> invitationId = ''i1'', i_projectId = ''p1'', inviterUserId = ''o'',
                     inviteeEmail = ''a@x.com'', i_status = Pending, i_createdAt = 0,
                     expiresAt = 1000 \<rparr>"

definition exTask :: task where
  "exTask = \<lparr> taskId = ''t1'', t_projectId = ''p1'', t_title = ''Draft'', t_description = [],
               t_status = TaskPending, assignee = Some ''m'', completedAt = None,
               t_updatedAt = 0 \<rparr>"

definition exStore :: store where
  "exStore = \<lparr> PROJECTS = [exProject], INVITATIONS = [exInvitation], TASKS = [exTask],
                USER_SESSIONS = [\<lparr> s_userId = ''o'', s_email = ''o@x.com'', s_isActive = True \<rparr>,
                                 \<lparr> s_userId = ''m'', s_email = ''m@x.com'', s_isActive = True \<rparr>] \<rparr>"

definition noUpdates :: task_updates where
  "noUpdates = \<lparr> u_taskId = None, u_projectId = None, u_title = None, u_description = None,
                  u_status = None, u_assignee = None, u_completedAt = None,
                  u_updatedAt = None \<rparr>"

definition userO :: user_row where
  "userO = \<lparr> u_id = ''o'', u_name = ''Olga'', u_email = ''o@x.com'', is_active = True \<rparr>"

definition userM :: user_row where
  "userM = \<lparr> u_id = ''m'', u_name = ''Mia'', u_email = ''m@x.com'', is_active = True \<rparr>"

definition userA :: user_row where
  "userA = \<lparr> u_id = ''a'', u_name = ''Ann'', u_email = ''a@x.com'', is_active = True \<rparr>"

definition exRow :: row where
  "exRow = (\<lambda>c. JNull)(''id'' := JStr ''t1'', ''project_id'' := JStr ''p1'',
      ''title'' := JStr ''Draft'', ''status'' := JStr ''pending'',
      ''assignee_id'' := JStr ''o'', ''tags'' := JArr [JStr ''alpha''],
      ''completed_at'' := JNull)"

definition exDb :: db where
  "exDb = \<lparr> users = [userO, userM, userA],
             projects = [\<lparr> p_id = ''p1'', p_title = ''Launch'', owner_id = ''o'',
                           p_settings = Some defaultSettings \<rparr>],
             project_members = [\<lparr> pm_project_id = ''p1'', pm_user_id = ''o'' \<rparr>,
                                \<lparr> pm_project_id = ''p1'', pm_user_id = ''m'' \<rparr>],
             invitations = [\<lparr> inv_id = ''i1'', project_id = ''p1'', inviter_id = ''o'',
                              invitee_email = ''a@x.com'', status = pending, expires_at = 1000,
                              accepted_at = None, created_at = 0 \<rparr>],
             tasks = [exRow] \<rparr>"

definition noFault :: "stmt \<Rightarrow> bool" where
  "noFault s = False"

definition allWrites :: "storage_key \<Rightarrow> bool" where
  "allWrites k = True"

definition exBody :: body where
  "exBody = Map.empty(''title'' \<mapsto> JStr ''Final'', ''completed_at'' \<mapsto> JTime 5,
      ''tags'' \<mapsto> JArr [], ''project_id'' \<mapsto> JStr ''p2'')"

definition exStringify :: "jval \<Rightarrow> string" where
  "exStringify v = ''{}''"

definition exAccepts :: "(string \<times> jval) list \<Rightarrow> bool" where
  "exAccepts sets = True"

definition inviteStore :: store where
  "inviteStore = exStore\<lparr>PROJECTS :=
     [exProject\<lparr>settings := Some (defaultSettings\<lparr>allowMemberInvite := Some True\<rparr>)\<rparr>]\<rparr>"

definition projectsFull :: "storage_key \<Rightarrow> bool" where
  "projectsFull k = (k \<noteq> KPROJECTS)"

text \<open>An instance of \<open>toLowerCase\<close> for the examples: it lower-cases the ASCII letters.\<close>

definition lowerChar :: "char \<Rightarrow> char" where
  "lowerChar c = (let n = (of_char c :: nat) in if 65 \<le> n \<and> n \<le> 90 then char_of (n + 32) else c)"

definition exLower :: "string \<Rightarrow> string" where
  "exLower s = map lowerChar s"

text \<open>
  The short ids of the examples stand for uuids in stored form; \<open>O\<close> is a second spelling of
  the uuid \<open>o\<close>, and \<open>not-a-uuid\<close> is no uuid.
\<close>

definition exUuid :: "string \<Rightarrow> uid option" where
  "exUuid s = (if s = ''O'' then Some ''o'' else if s = ''not-a-uuid'' then None else Some s)"

definition exProjectRow :: project_row where
  "exProjectRow = \<lparr> p_id = ''p1'', p_title = ''Launch'', owner_id = ''o'',
                     p_settings = Some defaultSettings \<rparr>"

section \<open>Lists and joins\<close>

lemma findIndex_None: "findIndex P xs = None \<longleftrightarrow> (\<forall>x\<in>set xs. \<not> P x)"
  by (induction xs) auto

lemma findIndex_Some: "findIndex P xs = Some i \<Longrightarrow> i < length xs \<and> P (xs ! i)"
  by (induction xs arbitrary: i) (auto split: if_splits)

lemma find_findIndex: "find P xs = map_option ((!) xs) (findIndex P xs)"
  by (induction xs) (auto simp: option.map_comp comp_def)

lemma find_index:
  assumes "find P xs = Some x"
  shows "\<exists>i. findIndex P xs = Some i \<and> i < length xs \<and> xs ! i = x"
proof -
  from assms obtain i where i: "findIndex P xs = Some i" "xs ! i = x"
    by (auto simp: find_findIndex)
  with findIndex_Some[OF i(1)] show ?thesis by blast
qed

lemma innerJoin_set:
  "(x, y) \<in> set (innerJoin xs ys on) \<longleftrightarrow> x \<in> set xs \<and> y \<in> set ys \<and> on x y"
  by (auto simp: innerJoin_def)

lemma leftJoin_set:
  "(x, m) \<in> set (leftJoin xs ys on) \<longleftrightarrow>
     x \<in> set xs \<and> (case m of None \<Rightarrow> (\<forall>y\<in>set ys. \<not> on x y) | Some y \<Rightarrow> y \<in> set ys \<and> on x y)"
proof -
  have row: "(x, m) \<in> set (case filter (on x') ys of [] \<Rightarrow> [(x', None)]
                               | ms \<Rightarrow> map (\<lambda>y. (x', Some y)) ms) \<longleftrightarrow>
        x = x' \<and> (case m of None \<Rightarrow> (\<forall>y\<in>set ys. \<not> on x y) | Some y \<Rightarrow> y \<in> set ys \<and> on x y)"
    for x'
  proof (cases "filter (on x') ys")
    case Nil
    then have "\<forall>y\<in>set ys. \<not> on x' y" by (simp add: filter_empty_conv)
    with Nil show ?thesis by (cases m) auto
  next
    case (Cons a as)
    then have "set (a # as) = {y \<in> set ys. on x' y}" by (metis set_filter)
    moreover from this have "\<exists>y\<in>set ys. on x' y" by auto
    ultimately show ?thesis unfolding Cons by (cases m) auto
  qed
  show ?thesis unfolding leftJoin_def by (auto simp: row)
qed

lemma leftJoin_Nil: "leftJoin xs ys on = [] \<longleftrightarrow> xs = []"
proof -
  have "(case filter (on x) ys of [] \<Rightarrow> [(x, None)] | ms \<Rightarrow> map (\<lambda>y. (x, Some y)) ms) \<noteq> []"
    for x by (cases "filter (on x) ys") auto
  then show ?thesis unfolding leftJoin_def by (cases xs) auto
qed

lemma leftJoin_fst: "fst ` set (leftJoin xs ys on) = set xs"
proof
  show "fst ` set (leftJoin xs ys on) \<subseteq> set xs"
    using leftJoin_set[of _ _ xs ys on] by auto
next
  show "set xs \<subseteq> fst ` set (leftJoin xs ys on)"
  proof
    fix x assume x: "x \<in> set xs"
    show "x \<in> fst ` set (leftJoin xs ys on)"
    proof (cases "\<exists>y\<in>set ys. on x y")
      case True
      then obtain y where "y \<in> set ys" "on x y" by blast
      with x have "(x, Some y) \<in> set (leftJoin xs ys on)" by (simp add: leftJoin_set)
      then show ?thesis by force
    next
      case False
      with x have "(x, None) \<in> set (leftJoin xs ys on)" by (simp add: leftJoin_set)
      then show ?thesis by force
    qed
  qed
qed

section \<open>Creating invitations\<close>

lemma projectQuery_Nil:
  "projectQuery d pid userId = [] \<longleftrightarrow> (\<forall>p\<in>set (projects d). p_id p \<noteq> pid)"
proof -
  let ?J = "leftJoin (projects d) (project_members d)
              (\<lambda>p pm. pm_project_id pm = p_id p \<and> pm_user_id pm = userId)"
  have "projectQuery d pid userId = [] \<longleftrightarrow> (\<forall>r\<in>set ?J. p_id (fst r) \<noteq> pid)"
    by (auto simp: projectQuery_def filter_empty_conv)
  also have "\<dots> \<longleftrightarrow> (\<forall>p\<in>fst ` set ?J. p_id p \<noteq> pid)" by auto
  finally show ?thesis by (simp only: leftJoin_fst)
qed

lemma projectQuery_Cons:
  assumes "projectQuery d pid userId = (p, m) # rest"
  shows "p \<in> set (projects d) \<and> p_id p = pid \<and>
         (m \<noteq> None \<longleftrightarrow>
            (\<exists>pm\<in>set (project_members d). pm_project_id pm = pid \<and> pm_user_id pm = userId))"
proof -
  have "(p, m) \<in> set (projectQuery d pid userId)" by (simp add: assms)
  then have pid: "p_id p = pid"
    and j: "(p, m) \<in> set (leftJoin (projects d) (project_members d)
              (\<lambda>p pm. pm_project_id pm = p_id p \<and> pm_user_id pm = userId))"
    by (auto simp: projectQuery_def)
  from j pid show ?thesis by (cases m) (auto simp: leftJoin_set)
qed

lemma canInvite_table:
  assumes "projectQuery d pid userId = (p, m) # rest"
  shows "canInvite p m userId \<longleftrightarrow>
           owner_id p = userId \<or>
           ((\<exists>pm\<in>set (project_members d). pm_project_id pm = pid \<and> pm_user_id pm = userId)
              \<and> flag (p_settings p) allowMemberInvite)"
  using projectQuery_Cons[OF assms] by (simp add: canInvite_def)



lemma postInvitation_Cons:
  assumes "projectQuery d pid (u_id user) = (p, m) # rest"
  shows "code (fst (postInvitation d now newId mailSent lower (JoiValue (email, pid)) user)) =
     (if \<not> canInvite p m (u_id user) then 403
      else if existingMemberQuery d pid (lower email) \<noteq> [] then 409
      else if existingInvitationQuery d now pid (lower email) \<noteq> [] then 409
      else if mailSent then 201 else 500)"
  by (simp add: postInvitation_def assms Let_def)

lemma createInvitation_Some:
  assumes "getProject st pid inviter = Some pr"
  shows "createInvitation st w now newId pid inviter email =
     (if ownerId pr \<noteq> inviter then Inl (Error ''Only the project owner can invite members'')
      else if find (\<lambda>i. i_projectId i = pid \<and> inviteeEmail i = email \<and> i_status i = Pending)
                (INVITATIONS st) \<noteq> None
      then Inl (Error ''Invitation already sent to this email'')
      else Inr (\<lparr> invitationId = newId, i_projectId = pid, inviterUserId = inviter,
                  inviteeEmail = email, i_status = Pending, i_createdAt = now,
                  expiresAt = now + 7 * 24 * 60 * 60 * 1000 \<rparr>,
                saveInvitations w st (INVITATIONS st @
                  [\<lparr> invitationId = newId, i_projectId = pid, inviterUserId = inviter,
                     inviteeEmail = email, i_status = Pending, i_createdAt = now,
                     expiresAt = now + 7 * 24 * 60 * 60 * 1000 \<rparr>])))"
  by (simp add: createInvitation_def assms Let_def split: option.splits)

lemma owner_msg_neq:
  "Error ''Invitation already sent to this email''
     \<noteq> Error ''Only the project owner can invite members''"
  by simp

text \<open>
  C6 (as amended). On the server an actor of an existing project is refused with 403 exactly
  when they are neither the owner nor a member of a project whose \<open>allowMemberInvite\<close> is
  set. In the client's \<open>createInvitation\<close> only the owner passes: every other actor who can
  see the project gets ``Only the project owner can invite members'', whatever
  \<open>allowMemberInvite\<close> says.
\<close>

theorem C6_can_invite:
  "(projectQuery d pid (u_id user) = (p, m) # rest \<longrightarrow>
      (code (fst (postInvitation d now newId mailSent lower (JoiValue (email, pid)) user)) = 403)
        = (\<not> (owner_id p = u_id user \<or>
               ((\<exists>pm\<in>set (project_members d).
                    pm_project_id pm = pid \<and> pm_user_id pm = u_id user)
                 \<and> flag (p_settings p) allowMemberInvite))))
   \<and> (getProject st pid inviter = Some pr \<longrightarrow>
        (createInvitation st w now newId pid inviter email
           = Inl (Error ''Only the project owner can invite members''))
          = (ownerId pr \<noteq> inviter))"
proof (intro conjI impI)
  assume q: "projectQuery d pid (u_id user) = (p, m) # rest"
  show "(code (fst (postInvitation d now newId mailSent lower (JoiValue (email, pid)) user)) = 403)
        = (\<not> (owner_id p = u_id user \<or>
               ((\<exists>pm\<in>set (project_members d).
                    pm_project_id pm = pid \<and> pm_user_id pm = u_id user)
                 \<and> flag (p_settings p) allowMemberInvite)))"
    unfolding postInvitation_Cons[OF q] canInvite_table[OF q, symmetric] by simp
next
  assume g: "getProject st pid inviter = Some pr"
  show "(createInvitation st w now newId pid inviter email
           = Inl (Error ''Only the project owner can invite members''))
          = (ownerId pr \<noteq> inviter)"
    unfolding createInvitation_Some[OF g] using owner_msg_neq by simp
qed

theorem C6_can_invite_witness:
  "code (fst (postInvitation exDb 100 ''i2'' True exLower (JoiValue (''b@x.com'', ''p1'')) userM)) = 403
   \<and> code (fst (postInvitation exDb 100 ''i2'' True exLower (JoiValue (''b@x.com'', ''p1'')) userO)) \<noteq> 403
   \<and> createInvitation exStore allWrites 100 ''i2'' ''p1'' ''m'' ''b@x.com''
       = Inl (Error ''Only the project owner can invite members'')"
proof -
  have q: "projectQuery exDb ''p1'' (u_id userM)
             = (exProjectRow, Some \<lparr>pm_project_id = ''p1'', pm_user_id = ''m''\<rparr>) # []"
    by code_simp
  have q': "projectQuery exDb ''p1'' (u_id userO)
             = (exProjectRow, Some \<lparr>pm_project_id = ''p1'', pm_user_id = ''o''\<rparr>) # []"
    by code_simp
  have g: "getProject exStore ''p1'' ''m'' = Some exProject" by code_simp
  have n: "\<not> (owner_id exProjectRow = u_id userM \<or>
               ((\<exists>pm\<in>set (project_members exDb).
                    pm_project_id pm = ''p1'' \<and> pm_user_id pm = u_id userM)
                 \<and> flag (p_settings exProjectRow) allowMemberInvite))"
    by code_simp
  have y: "\<not> \<not> (owner_id exProjectRow = u_id userO \<or>
               ((\<exists>pm\<in>set (project_members exDb).
                    pm_project_id pm = ''p1'' \<and> pm_user_id pm = u_id userO)
                 \<and> flag (p_settings exProjectRow) allowMemberInvite))"
    by code_simp
  have o: "ownerId exProject \<noteq> ''m''" by code_simp
  note c1 = C6_can_invite[where d=exDb and pid="''p1''" and user=userM and p=exProjectRow
              and m="Some \<lparr>pm_project_id = ''p1'', pm_user_id = ''m''\<rparr>" and rest="[]"
              and now=100 and newId="''i2''" and mailSent=True and lower=exLower and email="''b@x.com''",
              THEN conjunct1, THEN mp, OF q, THEN iffD2, OF n]
  note e2 = C6_can_invite[where d=exDb and pid="''p1''" and user=userO and p=exProjectRow
              and m="Some \<lparr>pm_project_id = ''p1'', pm_user_id = ''o''\<rparr>" and rest="[]"
              and now=100 and newId="''i2''" and mailSent=True and lower=exLower and email="''b@x.com''",
              THEN conjunct1, THEN mp, OF q']
  have c2: "code (fst (postInvitation exDb 100 ''i2'' True exLower (JoiValue (''b@x.com'', ''p1'')) userO)) \<noteq> 403"
    using e2 y by (rule_tac notI) (drule iffD1, assumption, erule notE, assumption)
  note c3 = C6_can_invite[where st=exStore and pid="''p1''" and inviter="''m''" and pr=exProject
              and w=allWrites and now=100 and newId="''i2''" and email="''b@x.com''",
              THEN conjunct2, THEN mp, OF g, THEN iffD2, OF o]
  show ?thesis using c1 c2 c3 by (intro conjI)
qed

text \<open>
  The claim as stated fails on the client: member \<open>m\<close> of a project with
  \<open>allowMemberInvite\<close> is refused.
\<close>

theorem C6_counterexample:
  "createInvitation inviteStore allWrites 100 ''i2'' ''p1'' ''m'' ''b@x.com''
     = Inl (Error ''Only the project owner can invite members'')
   \<and> members (PROJECTS inviteStore ! 0) = [''o'', ''m'']
   \<and> flag (settings (PROJECTS inviteStore ! 0)) allowMemberInvite = True"
  by code_simp




section \<open>Reading a project and its tasks\<close>

lemma accessQuery_hidden:
  assumes "\<forall>p\<in>set (projects d). p_id p = pid \<longrightarrow> owner_id p \<noteq> userId"
    and "\<forall>pm\<in>set (project_members d). pm_project_id pm = pid \<longrightarrow> pm_user_id pm \<noteq> userId"
  shows "accessQuery d pid userId = []"
proof -
  have "\<not> (p_id (fst r) = pid \<and> visible userId r)"
    if "r \<in> set (leftJoin (projects d) (project_members d) (\<lambda>p pm. pm_project_id pm = p_id p))"
    for r
  proof -
    obtain p m where r: "r = (p, m)" by (cases r)
    from that show ?thesis unfolding r using assms
      by (cases m) (auto simp: leftJoin_set visible_def)
  qed
  then show ?thesis by (simp add: accessQuery_def filter_empty_conv)
qed

lemma singleProjectQuery_hidden:
  assumes "\<forall>p\<in>set (projects d). p_id p = pid \<longrightarrow> owner_id p \<noteq> userId"
    and "\<forall>pm\<in>set (project_members d). pm_project_id pm = pid \<longrightarrow> pm_user_id pm \<noteq> userId"
  shows "singleProjectQuery d pid userId = []"
proof -
  have "\<not> (p_id (fst (fst r)) = pid \<and> visible userId (fst (fst r), snd r))"
    if "r \<in> set (leftJoin (innerJoin (projects d) (users d) (\<lambda>p u. u_id u = owner_id p))
                    (project_members d) (\<lambda>(p, u) pm. pm_project_id pm = p_id p))"
    for r
  proof -
    obtain p u m where r: "r = ((p, u), m)" by (metis prod.collapse)
    from that show ?thesis unfolding r using assms
      by (cases m) (auto simp: leftJoin_set innerJoin_set visible_def)
  qed
  then show ?thesis by (simp add: singleProjectQuery_def filter_empty_conv case_prod_beta)
qed

lemma getProject_hidden:
  assumes "\<forall>p\<in>set (PROJECTS st). projectId p = pid \<longrightarrow> ownerId p \<noteq> userId \<and> userId \<notin> set (members p)"
  shows "getProject st pid userId = None"
proof (cases "find (\<lambda>p. projectId p = pid) (PROJECTS st)")
  case None
  then show ?thesis by (simp add: getProject_def)
next
  case (Some p)
  then have "p \<in> set (PROJECTS st)" "projectId p = pid"
    by (auto simp: find_Some_iff)
  with assms have "ownerId p \<noteq> userId \<and> userId \<notin> set (members p)" by blast
  with Some show ?thesis by (simp add: getProject_def)
qed

lemma getProject_Some:
  assumes "getProject st pid userId = Some pr"
  shows "find (\<lambda>p. projectId p = pid) (PROJECTS st) = Some pr
         \<and> (ownerId pr = userId \<or> userId \<in> set (members pr))"
  using assms by (auto simp: getProject_def split: option.splits if_splits)

lemma getProject_find:
  assumes "find (\<lambda>p. projectId p = pid) (PROJECTS st) = Some pr"
  shows "getProject st pid userId =
           (if ownerId pr = userId \<or> userId \<in> set (members pr) then Some pr else None)"
  by (simp add: getProject_def assms)

text \<open>
  C7 (as amended). For a user who is neither owner nor member of project \<open>pid\<close>: on the
  server \<open>GET /projects/:id\<close> answers 404 and \<open>GET /tasks/project/:projectId\<close> answers 403
  ``Access denied to project'', each exactly the answer it gives when no project \<open>pid\<close>
  exists; on the client \<open>getProject\<close> returns null and \<open>getTasksByProject\<close> the empty list.
\<close>

theorem C7_hidden_from_non_members:
  "((\<forall>p\<in>set (projects d). p_id p = pid \<longrightarrow> owner_id p \<noteq> u_id user)
      \<and> (\<forall>pm\<in>set (project_members d). pm_project_id pm = pid \<longrightarrow> pm_user_id pm \<noteq> u_id user) \<longrightarrow>
      getProjectRoute d pid user = Response 404 ''Project not found or access denied'' None
      \<and> getTasksRoute d pid user = Response 403 ''Access denied to project'' None
      \<and> getProjectRoute (d\<lparr>projects := filter (\<lambda>p. p_id p \<noteq> pid) (projects d)\<rparr>) pid user
          = getProjectRoute d pid user
      \<and> getTasksRoute (d\<lparr>projects := filter (\<lambda>p. p_id p \<noteq> pid) (projects d)\<rparr>) pid user
          = getTasksRoute d pid user)
   \<and> ((\<forall>p\<in>set (PROJECTS st). projectId p = pid \<longrightarrow>
          ownerId p \<noteq> userId \<and> userId \<notin> set (members p)) \<longrightarrow>
        getProject st pid userId = None \<and> getTasksByProject st pid userId = [])"
proof (intro conjI impI)
  assume a: "(\<forall>p\<in>set (projects d). p_id p = pid \<longrightarrow> owner_id p \<noteq> u_id user)
      \<and> (\<forall>pm\<in>set (project_members d). pm_project_id pm = pid \<longrightarrow> pm_user_id pm \<noteq> u_id user)"
  let ?d0 = "d\<lparr>projects := filter (\<lambda>p. p_id p \<noteq> pid) (projects d)\<rparr>"
  from a have s: "singleProjectQuery d pid (u_id user) = []"
    and t: "accessQuery d pid (u_id user) = []"
    by (simp_all add: singleProjectQuery_hidden accessQuery_hidden)
  from a have s0: "singleProjectQuery ?d0 pid (u_id user) = []"
    and t0: "accessQuery ?d0 pid (u_id user) = []"
    by (simp_all add: singleProjectQuery_hidden accessQuery_hidden)
  show "getProjectRoute d pid user = Response 404 ''Project not found or access denied'' None"
    by (simp add: getProjectRoute_def s)
  show "getTasksRoute d pid user = Response 403 ''Access denied to project'' None"
    by (simp add: getTasksRoute_def t)
  show "getProjectRoute ?d0 pid user = getProjectRoute d pid user"
    by (simp add: getProjectRoute_def s s0)
  show "getTasksRoute ?d0 pid user = getTasksRoute d pid user"
    by (simp add: getTasksRoute_def t t0)
next
  assume a: "\<forall>p\<in>set (PROJECTS st). projectId p = pid \<longrightarrow>
          ownerId p \<noteq> userId \<and> userId \<notin> set (members p)"
  show "getProject st pid userId = None" by (rule getProject_hidden[OF a])
  then show "getTasksByProject st pid userId = []" by (simp add: getTasksByProject_def)
qed

theorem C7_hidden_from_non_members_witness:
  "getProjectRoute exDb ''p1'' userA = Response 404 ''Project not found or access denied'' None
   \<and> getTasksRoute exDb ''p1'' userA = Response 403 ''Access denied to project'' None
   \<and> getProject exStore ''p1'' ''a'' = None
   \<and> getTasksByProject exStore ''p1'' ''a'' = []"
proof -
  note t = C7_hidden_from_non_members[where d=exDb and pid="''p1''" and user=userA
             and st=exStore and userId="''a''"]
  have h1: "(\<forall>p\<in>set (projects exDb). p_id p = ''p1'' \<longrightarrow> owner_id p \<noteq> u_id userA)
      \<and> (\<forall>pm\<in>set (project_members exDb). pm_project_id pm = ''p1'' \<longrightarrow> pm_user_id pm \<noteq> u_id userA)"
    by code_simp
  have h2: "\<forall>p\<in>set (PROJECTS exStore). projectId p = ''p1'' \<longrightarrow>
          ownerId p \<noteq> ''a'' \<and> ''a'' \<notin> set (members p)"
    by code_simp
  note s = t[THEN conjunct1, THEN mp, OF h1]
  note c = t[THEN conjunct2, THEN mp, OF h2]
  show ?thesis
    using s[THEN conjunct1] s[THEN conjunct2, THEN conjunct1] c[THEN conjunct1] c[THEN conjunct2]
    by (intro conjI)
qed

text \<open>
  The claim as stated fails on the server: user \<open>a\<close>, neither owner nor member, gets 403 for
  the task list of project \<open>p1\<close>, not 404.
\<close>

theorem C7_counterexample:
  "code (getTasksRoute exDb ''p1'' userA) = 403
   \<and> message (getTasksRoute exDb ''p1'' userA) = ''Access denied to project''
   \<and> u_id userA = ''a''
   \<and> map owner_id (projects exDb) = [''o'']
   \<and> map pm_user_id (project_members exDb) = [''o'', ''m'']"
  by code_simp

section \<open>Removing a member\<close>

lemma ownerCheckQuery_Nil:
  "ownerCheckQuery d pid userId = [] \<longleftrightarrow>
     \<not> (\<exists>p\<in>set (projects d). p_id p = pid \<and> owner_id p = userId)"
  by (auto simp: ownerCheckQuery_def filter_empty_conv)

lemma removeMemberRoute_no_project:
  assumes "uuid_in pid = None"
  shows "removeMemberRoute d uuid_in pid target user
        = (Response 500 ''Failed to remove member'' None, d)"
  using assms by (simp add: removeMemberRoute_def)

lemma removeMemberRoute_not_owner:
  assumes "uuid_in pid = Some pid'
        \<and> \<not> (\<exists>p\<in>set (projects d). p_id p = pid' \<and> owner_id p = u_id user)"
  shows "removeMemberRoute d uuid_in pid target user
        = (Response 403 ''Only project owner can remove members'' None, d)"
  using assms by (simp add: removeMemberRoute_def ownerCheckQuery_Nil)

lemma removeMemberRoute_owner:
  assumes "uuid_in pid = Some pid'
        \<and> (\<exists>p\<in>set (projects d). p_id p = pid' \<and> owner_id p = u_id user) \<and> target = u_id user"
  shows "removeMemberRoute d uuid_in pid target user
        = (Response 400 ''Cannot remove project owner'' None, d)"
  using assms by (simp add: removeMemberRoute_def ownerCheckQuery_Nil)

lemma removeMemberRoute_no_user:
  assumes a: "uuid_in pid = Some pid'
        \<and> (\<exists>p\<in>set (projects d). p_id p = pid' \<and> owner_id p = u_id user)
        \<and> target \<noteq> u_id user \<and> uuid_in target = None"
  shows "removeMemberRoute d uuid_in pid target user
        = (Response 500 ''Failed to remove member'' None, d)"
proof -
  from a have o: "ownerCheckQuery d pid' (u_id user) \<noteq> []" by (simp add: ownerCheckQuery_Nil)
  from a have t: "target \<noteq> u_id user" "uuid_in pid = Some pid'" "uuid_in target = None"
    by simp_all
  show ?thesis unfolding removeMemberRoute_def t(2) using o t(1,3) by simp
qed

lemma removeMemberRoute_absent:
  assumes a: "uuid_in pid = Some pid'
        \<and> (\<exists>p\<in>set (projects d). p_id p = pid' \<and> owner_id p = u_id user)
        \<and> target \<noteq> u_id user \<and> uuid_in target = Some t \<and> t \<noteq> u_id user
        \<and> \<not> (\<exists>pm\<in>set (project_members d). pm_project_id pm = pid' \<and> pm_user_id pm = t)"
  shows "removeMemberRoute d uuid_in pid target user
        = (Response 404 ''Member not found in project'' None, d)"
proof -
  from a have f: "filter (\<lambda>pm. pm_project_id pm = pid' \<and> pm_user_id pm = t) (project_members d) = []"
    by (auto simp: filter_empty_conv)
  from a have g: "filter (\<lambda>pm. \<not> (pm_project_id pm = pid' \<and> pm_user_id pm = t)) (project_members d)
      = project_members d"
    by (auto simp: filter_id_conv)
  from a have o: "ownerCheckQuery d pid' (u_id user) \<noteq> []" by (simp add: ownerCheckQuery_Nil)
  from a have t: "target \<noteq> u_id user" "uuid_in pid = Some pid'" "uuid_in target = Some t"
    by simp_all
  have "removeMemberRoute d uuid_in pid target user
        = (Response 404 ''Member not found in project'' None,
           d\<lparr>project_members := project_members d\<rparr>)"
    unfolding removeMemberRoute_def t(2) using o t(1,3) f g by (simp add: Let_def)
  then show ?thesis by simp
qed

lemma removeMemberRoute_present:
  assumes a: "uuid_in pid = Some pid'
        \<and> (\<exists>p\<in>set (projects d). p_id p = pid' \<and> owner_id p = u_id user)
        \<and> target \<noteq> u_id user \<and> uuid_in target = Some t \<and> t \<noteq> u_id user
        \<and> (\<exists>pm\<in>set (project_members d). pm_project_id pm = pid' \<and> pm_user_id pm = t)"
  shows "removeMemberRoute d uuid_in pid target user
          = (Response 200 ''Member removed successfully'' None,
             d\<lparr>project_members :=
                 filter (\<lambda>pm. \<not> (pm_project_id pm = pid' \<and> pm_user_id pm = t))
                   (project_members d)\<rparr>)"
proof -
  from a have f: "filter (\<lambda>pm. pm_project_id pm = pid' \<and> pm_user_id pm = t) (project_members d) \<noteq> []"
    by (auto simp: filter_empty_conv)
  from a have o: "ownerCheckQuery d pid' (u_id user) \<noteq> []" by (simp add: ownerCheckQuery_Nil)
  from a have t: "target \<noteq> u_id user" "uuid_in pid = Some pid'" "uuid_in target = Some t"
    by simp_all
  show ?thesis
    unfolding removeMemberRoute_def t(2) using o t(1,3) f by (simp add: Let_def)
qed

text \<open>
  The guard compares spellings, the DELETE compares uuids: the owner who names themselves
  by a second spelling of their id passes the guard, and the owner's own membership row is
  deleted.
\<close>

lemma removeMemberRoute_other_spelling:
  "code (fst (removeMemberRoute exDb exUuid ''p1'' ''O'' userO)) = 200
   \<and> map pm_user_id (project_members (snd (removeMemberRoute exDb exUuid ''p1'' ''O'' userO)))
       = [''m'']
   \<and> exUuid ''O'' = Some (u_id userO)"
  by code_simp

lemma removeMember_hidden:
  assumes "getProject st pid current = None"
  shows "removeMember st w now pid target current = Inr (False, st)"
  using assms by (simp add: removeMember_def)

lemma removeMember_not_owner:
  assumes "getProject st pid current = Some pr \<and> ownerId pr \<noteq> current"
  shows "removeMember st w now pid target current
          = Inl (Error ''Only the project owner can remove members'')"
  using assms by (simp add: removeMember_def)

lemma removeMember_owner:
  assumes "getProject st pid current = Some pr \<and> ownerId pr = current \<and> target = ownerId pr"
  shows "removeMember st w now pid target current = Inl (Error ''Cannot remove the project owner'')"
  using assms by (simp add: removeMember_def)

lemma removeMember_absent:
  assumes a: "getProject st pid current = Some pr \<and> ownerId pr = current \<and> target \<noteq> ownerId pr
        \<and> target \<notin> set (members pr)"
  shows "map_sum id fst (removeMember st w now pid target current) = Inr True
        \<and> map_sum id (\<lambda>r. map members (PROJECTS (snd r))) (removeMember st w now pid target current)
            = Inr (map members (PROJECTS st))"
proof -
  from a have g: "getProject st pid current = Some pr" by simp
  from getProject_Some[OF g] have "find (\<lambda>p. projectId p = pid) (PROJECTS st) = Some pr" ..
  from find_index[OF this]
  obtain i where i: "findIndex (\<lambda>p. projectId p = pid) (PROJECTS st) = Some i"
    "i < length (PROJECTS st)" "PROJECTS st ! i = pr" by blast
  from a have flt: "filter (\<lambda>memberId. memberId \<noteq> target) (members pr) = members pr"
    by (auto simp: filter_id_conv)
  from a have o: "ownerId pr = current" "target \<noteq> current" by auto
  have r: "removeMember st w now pid target current
     = Inr (True, saveProjects w st ((PROJECTS st)[i := pr\<lparr>members := members pr, updatedAt := now\<rparr>]))"
    unfolding removeMember_def g using o i(1,3) flt by (simp add: Let_def)
  have m: "map members ((PROJECTS st)[i := pr\<lparr>members := members pr, updatedAt := now\<rparr>])
          = map members (PROJECTS st)"
    using i(2,3) by (simp add: map_update list_update_same_conv)
  show ?thesis unfolding r using m by (simp add: saveProjects_def)
qed

text \<open>
  C9 (as amended). Server: a parameter that is not a uuid is answered 500; a requester who
  does not own the project gets 403; the owner naming themselves by their id as it is
  stored gets 400; the owner naming another user who has no membership row gets 404
  ``Member not found in project''; all of these leave the database unchanged; and the owner
  naming another user who has a membership row gets 200 and that user's rows are deleted.
  Client: a requester who cannot see the project gets \<open>false\<close>, a member who is not the
  owner and the owner naming themselves get an error, and the owner naming a user who is
  not in \<open>members\<close> gets \<open>true\<close> with every member list unchanged.
\<close>

theorem C9_remove_member:
  "(uuid_in pid = None \<longrightarrow>
      removeMemberRoute d uuid_in pid target user
        = (Response 500 ''Failed to remove member'' None, d))
   \<and> (uuid_in pid = Some pid'
        \<and> \<not> (\<exists>p\<in>set (projects d). p_id p = pid' \<and> owner_id p = u_id user) \<longrightarrow>
        removeMemberRoute d uuid_in pid target user
          = (Response 403 ''Only project owner can remove members'' None, d))
   \<and> (uuid_in pid = Some pid'
        \<and> (\<exists>p\<in>set (projects d). p_id p = pid' \<and> owner_id p = u_id user) \<and> target = u_id user \<longrightarrow>
        removeMemberRoute d uuid_in pid target user
          = (Response 400 ''Cannot remove project owner'' None, d))
   \<and> (uuid_in pid = Some pid'
        \<and> (\<exists>p\<in>set (projects d). p_id p = pid' \<and> owner_id p = u_id user)
        \<and> target \<noteq> u_id user \<and> uuid_in target = None \<longrightarrow>
        removeMemberRoute d uuid_in pid target user
          = (Response 500 ''Failed to remove member'' None, d))
   \<and> (uuid_in pid = Some pid'
        \<and> (\<exists>p\<in>set (projects d). p_id p = pid' \<and> owner_id p = u_id user)
        \<and> target \<noteq> u_id user \<and> uuid_in target = Some t \<and> t \<noteq> u_id user
        \<and> \<not> (\<exists>pm\<in>set (project_members d). pm_project_id pm = pid' \<and> pm_user_id pm = t) \<longrightarrow>
        removeMemberRoute d uuid_in pid target user
          = (Response 404 ''Member not found in project'' None, d))
   \<and> (uuid_in pid = Some pid'
        \<and> (\<exists>p\<in>set (projects d). p_id p = pid' \<and> owner_id p = u_id user)
        \<and> target \<noteq> u_id user \<and> uuid_in target = Some t \<and> t \<noteq> u_id user
        \<and> (\<exists>pm\<in>set (project_members d). pm_project_id pm = pid' \<and> pm_user_id pm = t) \<longrightarrow>
        removeMemberRoute d uuid_in pid target user
          = (Response 200 ''Member removed successfully'' None,
             d\<lparr>project_members :=
                 filter (\<lambda>pm. \<not> (pm_project_id pm = pid' \<and> pm_user_id pm = t))
                   (project_members d)\<rparr>))
   \<and> (getProject st pid current = None \<longrightarrow>
        removeMember st w now pid target current = Inr (False, st))
   \<and> (getProject st pid current = Some pr \<and> ownerId pr \<noteq> current \<longrightarrow>
        removeMember st w now pid target current
          = Inl (Error ''Only the project owner can remove members''))
   \<and> (getProject st pid current = Some pr \<and> ownerId pr = current \<and> target = ownerId pr \<longrightarrow>
        removeMember st w now pid target current = Inl (Error ''Cannot remove the project owner''))
   \<and> (getProject st pid current = Some pr \<and> ownerId pr = current \<and> target \<noteq> ownerId pr
        \<and> target \<notin> set (members pr) \<longrightarrow>
        map_sum id fst (removeMember st w now pid target current) = Inr True
        \<and> map_sum id (\<lambda>r. map members (PROJECTS (snd r))) (removeMember st w now pid target current)
            = Inr (map members (PROJECTS st)))"
proof (intro conjI impI)
qed (erule removeMemberRoute_no_project removeMemberRoute_not_owner removeMemberRoute_owner
       removeMemberRoute_no_user removeMemberRoute_absent removeMemberRoute_present
       removeMember_hidden removeMember_not_owner removeMember_owner
       removeMember_absent[THEN conjunct1] removeMember_absent[THEN conjunct2])+

theorem C9_remove_member_witness:
  "removeMemberRoute exDb exUuid ''not-a-uuid'' ''a'' userO
     = (Response 500 ''Failed to remove member'' None, exDb)
   \<and> removeMemberRoute exDb exUuid ''p1'' ''a'' userM
     = (Response 403 ''Only project owner can remove members'' None, exDb)
   \<and> removeMemberRoute exDb exUuid ''p1'' ''o'' userO
     = (Response 400 ''Cannot remove project owner'' None, exDb)
   \<and> removeMemberRoute exDb exUuid ''p1'' ''not-a-uuid'' userO
     = (Response 500 ''Failed to remove member'' None, exDb)
   \<and> removeMemberRoute exDb exUuid ''p1'' ''a'' userO
     = (Response 404 ''Member not found in project'' None, exDb)
   \<and> removeMemberRoute exDb exUuid ''p1'' ''m'' userO
     = (Response 200 ''Member removed successfully'' None,
        exDb\<lparr>project_members :=
                filter (\<lambda>pm. \<not> (pm_project_id pm = ''p1'' \<and> pm_user_id pm = ''m''))
                  (project_members exDb)\<rparr>)
   \<and> removeMember exStore allWrites 5 ''p1'' ''m'' ''a'' = Inr (False, exStore)
   \<and> removeMember exStore allWrites 5 ''p1'' ''a'' ''m''
     = Inl (Error ''Only the project owner can remove members'')
   \<and> removeMember exStore allWrites 5 ''p1'' ''o'' ''o''
     = Inl (Error ''Cannot remove the project owner'')
   \<and> map_sum id fst (removeMember exStore allWrites 5 ''p1'' ''a'' ''o'') = Inr True
   \<and> map_sum id (\<lambda>r. map members (PROJECTS (snd r)))
        (removeMember exStore allWrites 5 ''p1'' ''a'' ''o'') = Inr (map members (PROJECTS exStore))"
proof -
  have h0: "exUuid ''not-a-uuid'' = None" by code_simp
  have h1: "exUuid ''p1'' = Some ''p1''
        \<and> \<not> (\<exists>p\<in>set (projects exDb). p_id p = ''p1'' \<and> owner_id p = u_id userM)"
    by code_simp
  have h2: "exUuid ''p1'' = Some ''p1''
        \<and> (\<exists>p\<in>set (projects exDb). p_id p = ''p1'' \<and> owner_id p = u_id userO) \<and> ''o'' = u_id userO"
    by code_simp
  have hn: "exUuid ''p1'' = Some ''p1''
        \<and> (\<exists>p\<in>set (projects exDb). p_id p = ''p1'' \<and> owner_id p = u_id userO)
        \<and> ''not-a-uuid'' \<noteq> u_id userO \<and> exUuid ''not-a-uuid'' = None"
    by code_simp
  have h3: "exUuid ''p1'' = Some ''p1''
        \<and> (\<exists>p\<in>set (projects exDb). p_id p = ''p1'' \<and> owner_id p = u_id userO)
        \<and> ''a'' \<noteq> u_id userO \<and> exUuid ''a'' = Some ''a'' \<and> ''a'' \<noteq> u_id userO
        \<and> \<not> (\<exists>pm\<in>set (project_members exDb). pm_project_id pm = ''p1'' \<and> pm_user_id pm = ''a'')"
    by code_simp
  have h4: "exUuid ''p1'' = Some ''p1''
        \<and> (\<exists>p\<in>set (projects exDb). p_id p = ''p1'' \<and> owner_id p = u_id userO)
        \<and> ''m'' \<noteq> u_id userO \<and> exUuid ''m'' = Some ''m'' \<and> ''m'' \<noteq> u_id userO
        \<and> (\<exists>pm\<in>set (project_members exDb). pm_project_id pm = ''p1'' \<and> pm_user_id pm = ''m'')"
    by code_simp
  have h5: "getProject exStore ''p1'' ''a'' = None" by code_simp
  have h6: "getProject exStore ''p1'' ''m'' = Some exProject \<and> ownerId exProject \<noteq> ''m''"
    by code_simp
  have h7: "getProject exStore ''p1'' ''o'' = Some exProject \<and> ownerId exProject = ''o''
              \<and> ''o'' = ownerId exProject"
    by code_simp
  have h8: "getProject exStore ''p1'' ''o'' = Some exProject \<and> ownerId exProject = ''o''
              \<and> ''a'' \<noteq> ownerId exProject \<and> ''a'' \<notin> set (members exProject)"
    by code_simp
  note c0 = C9_remove_member[where d=exDb and uuid_in=exUuid and pid="''not-a-uuid''"
              and user=userO and target="''a''", THEN conjunct1, THEN mp, OF h0]
  note c1 = C9_remove_member[where d=exDb and uuid_in=exUuid and pid="''p1''" and pid'="''p1''"
              and user=userM and target="''a''",
              THEN conjunct2, THEN conjunct1, THEN mp, OF h1]
  note c2 = C9_remove_member[where d=exDb and uuid_in=exUuid and pid="''p1''" and pid'="''p1''"
              and user=userO and target="''o''",
              THEN conjunct2, THEN conjunct2, THEN conjunct1, THEN mp, OF h2]
  note cn = C9_remove_member[where d=exDb and uuid_in=exUuid and pid="''p1''" and pid'="''p1''"
              and user=userO and target="''not-a-uuid''",
              THEN conjunct2, THEN conjunct2, THEN conjunct2, THEN conjunct1, THEN mp, OF hn]
  note c3 = C9_remove_member[where d=exDb and uuid_in=exUuid and pid="''p1''" and pid'="''p1''"
              and user=userO and target="''a''" and t="''a''",
              THEN conjunct2, THEN conjunct2, THEN conjunct2, THEN conjunct2, THEN conjunct1,
              THEN mp, OF h3]
  note c4 = C9_remove_member[where d=exDb and uuid_in=exUuid and pid="''p1''" and pid'="''p1''"
              and user=userO and target="''m''" and t="''m''",
              THEN conjunct2, THEN conjunct2, THEN conjunct2, THEN conjunct2, THEN conjunct2,
              THEN conjunct1, THEN mp, OF h4]
  note c5 = C9_remove_member[where st=exStore and pid="''p1''" and current="''a''"
              and target="''m''" and w=allWrites and now=5,
              THEN conjunct2, THEN conjunct2, THEN conjunct2, THEN conjunct2, THEN conjunct2,
              THEN conjunct2, THEN conjunct1, THEN mp, OF h5]
  note c6 = C9_remove_member[where st=exStore and pid="''p1''" and current="''m''"
              and target="''a''" and w=allWrites and now=5 and pr=exProject,
              THEN conjunct2, THEN conjunct2, THEN conjunct2, THEN conjunct2, THEN conjunct2,
              THEN conjunct2, THEN conjunct2, THEN conjunct1, THEN mp, OF h6]
  note c7 = C9_remove_member[where st=exStore and pid="''p1''" and current="''o''"
              and target="''o''" and w=allWrites and now=5 and pr=exProject,
              THEN conjunct2, THEN conjunct2, THEN conjunct2, THEN conjunct2, THEN conjunct2,
              THEN conjunct2, THEN conjunct2, THEN conjunct2, THEN conjunct1, THEN mp, OF h7]
  note c8 = C9_remove_member[where st=exStore and pid="''p1''" and current="''o''"
              and target="''a''" and w=allWrites and now=5 and pr=exProject,
              THEN conjunct2, THEN conjunct2, THEN conjunct2, THEN conjunct2, THEN conjunct2,
              THEN conjunct2, THEN conjunct2, THEN conjunct2, THEN conjunct2, THEN mp, OF h8]
  show ?thesis
    using c0 c1 c2 cn c3 c4 c5 c6 c7 c8[THEN conjunct1] c8[THEN conjunct2]
    by (intro conjI)
qed

text \<open>
  The claim as stated fails on the client: the owner removing user \<open>a\<close>, who is not a
  member, gets \<open>true\<close>, the result of a successful removal.
\<close>

theorem C9_counterexample:
  "map_sum id fst (removeMember exStore allWrites 5 ''p1'' ''a'' ''o'') = Inr True
   \<and> ownerId (PROJECTS exStore ! 0) = ''o''
   \<and> members (PROJECTS exStore ! 0) = [''o'', ''m'']"
  by code_simp

section \<open>The task update of the server (PUT /tasks/:id)\<close>

lemma setColumns_other: "c \<notin> fst ` set sets \<Longrightarrow> setColumns sets r c = r c"
  unfolding setColumns_def
proof (induction sets arbitrary: r)
  case Nil
  then show ?case by simp
next
  case (Cons a sets)
  obtain k v where a: "a = (k, v)" by (cases a)
  from Cons.prems have "c \<noteq> k" "c \<notin> fst ` set sets" by (auto simp: a)
  then show ?case using Cons.IH[of "r(k := v)"] by (simp add: a)
qed

lemma assignment_cols: "fst ` set (assignment s b f) \<subseteq> {f}"
  by (cases "requested b f") (simp_all add: assignment_def)

lemma updateFields_cols:
  "fst ` set (updateFields s b t now) \<subseteq> set allowedFields \<union> {''completed_at''}"
proof -
  have "fst ` set (concat (map (assignment s b) allowedFields)) \<subseteq> set allowedFields"
    using assignment_cols[of s b] by fastforce
  then show ?thesis unfolding updateFields_def by auto
qed

lemma updateQuery_frame:
  assumes "c \<notin> fst ` set sets" "c \<noteq> ''updated_at''"
  shows "map (\<lambda>row. row c) (tasks (updateQuery d now tid sets)) = map (\<lambda>row. row c) (tasks d)"
  using assms by (simp add: updateQuery_def setColumns_other)

lemma putTask_Nil:
  "taskQuery d tid (u_id user) = [] \<Longrightarrow>
   putTask d now s acc tid b user = (Response 404 ''Task not found'' None, d)"
  by (simp add: putTask_def)

lemma putTask_Cons:
  "taskQuery d tid (u_id user) = ((t, p), m) # rest \<Longrightarrow>
   putTask d now s acc tid b user =
     (if \<not> canEditRoute t p m (u_id user)
      then (Response 403 ''You do not have permission to edit this task'' None, d)
      else if updateFields s b t now = []
      then (Response 400 ''No valid fields to update'' None, d)
      else if \<not> acc (updateFields s b t now)
      then (Response 500 ''Failed to update task'' None, d)
      else (Response 200 ''Task updated successfully''
              (find (\<lambda>r. r ''id'' = JStr tid)
                 (tasks (updateQuery d now tid (updateFields s b t now)))),
            updateQuery d now tid (updateFields s b t now)))"
  by (simp add: putTask_def Let_def)

lemma putTask_cases:
  assumes "putTask d now s acc tid b user = (r, d')"
  shows "d' = d \<or> (\<exists>t. d' = updateQuery d now tid (updateFields s b t now))"
proof (cases "taskQuery d tid (u_id user)")
  case Nil
  with assms show ?thesis by (simp add: putTask_Nil)
next
  case (Cons a rest)
  obtain t p m where a: "a = ((t, p), m)" by (metis prod.collapse)
  have "d' = d \<or> d' = updateQuery d now tid (updateFields s b t now)"
    using assms unfolding putTask_Cons[OF Cons[unfolded a]]
    by (simp split: if_splits)
  then show ?thesis by blast
qed

lemma putTask_frame:
  assumes "putTask d now s acc tid b user = (r, d')"
    and "c \<notin> set allowedFields" "c \<noteq> ''completed_at''" "c \<noteq> ''updated_at''"
  shows "map (\<lambda>row. row c) (tasks d') = map (\<lambda>row. row c) (tasks d)"
proof -
  from putTask_cases[OF assms(1)] show ?thesis
  proof
    assume "d' = d" then show ?thesis by simp
  next
    assume "\<exists>t. d' = updateQuery d now tid (updateFields s b t now)"
    then obtain t where d': "d' = updateQuery d now tid (updateFields s b t now)" ..
    have "c \<notin> fst ` set (updateFields s b t now)"
      using updateFields_cols[of s b t now] assms(2,3) by blast
    then show ?thesis unfolding d' using assms(4) by (rule updateQuery_frame)
  qed
qed

lemma assignment_ignores:
  assumes "k \<noteq> f" "k \<noteq> camel f"
  shows "assignment s (b(k := x)) f = assignment s b f"
proof -
  have "(b(k := x)) (camel f) = b (camel f)" "(b(k := x)) f = b f"
    using assms by simp_all
  then show ?thesis unfolding assignment_def requested_def by (simp only:)
qed

lemma status_allowed: "''status'' \<in> set allowedFields"
  by (simp add: allowedFields_def)

lemma updateFields_ignores:
  assumes "k \<notin> set allowedFields" "k \<notin> camel ` set allowedFields"
  shows "updateFields s (b(k := x)) t now = updateFields s b t now"
proof -
  have "map (assignment s (b(k := x))) allowedFields = map (assignment s b) allowedFields"
    using assms by (intro map_cong refl assignment_ignores) auto
  moreover have "k \<noteq> ''status''" using assms(1) status_allowed by auto
  then have "(b(k := x)) ''status'' = b ''status''" by simp
  ultimately show ?thesis unfolding updateFields_def by (simp only:)
qed

lemma putTask_ignores:
  assumes "k \<notin> set allowedFields" "k \<notin> camel ` set allowedFields"
  shows "putTask d now s acc tid (b(k := x)) user = putTask d now s acc tid b user"
proof (cases "taskQuery d tid (u_id user)")
  case Nil
  then show ?thesis by (simp add: putTask_Nil)
next
  case (Cons a rest)
  obtain t p m where a: "a = ((t, p), m)" by (metis prod.collapse)
  show ?thesis
    unfolding putTask_Cons[OF Cons[unfolded a]] updateFields_ignores[OF assms] ..
qed

lemma updateQuery_tables:
  "users (updateQuery d now tid sets) = users d"
  "projects (updateQuery d now tid sets) = projects d"
  "project_members (updateQuery d now tid sets) = project_members d"
  "invitations (updateQuery d now tid sets) = invitations d"
  by (simp_all add: updateQuery_def)

lemma camel_allowedFields:
  "map camel allowedFields = [''title'', ''description'', ''status'', ''priority'',
     ''assigneeId'', ''dueDate'', ''estimate'', ''milestoneId'', ''timeSpent'', ''styling'']"
  by code_simp

text \<open>
  C10. A task update changes no column of \<open>tasks\<close> outside the allowlist, \<open>completed_at\<close>
  and \<open>updated_at\<close>, in any row; it leaves the other tables alone; and a key of the request
  body that is neither an allowlisted column nor its camel-case spelling (such as
  \<open>success_metrics\<close>, \<open>rich_content\<close>, \<open>tags\<close>, \<open>project_id\<close> or \<open>completed_at\<close>) has
  no influence on the response or on the resulting database.
\<close>

theorem C10_update_allowlist:
  assumes "putTask d now stringify dbAccepts tid b user = (r, d')"
  shows "(\<forall>c. c \<notin> set allowedFields \<union> {''completed_at'', ''updated_at''} \<longrightarrow>
            map (\<lambda>row. row c) (tasks d') = map (\<lambda>row. row c) (tasks d))
       \<and> (\<forall>k x. k \<notin> set allowedFields \<union> camel ` set allowedFields \<longrightarrow>
            putTask d now stringify dbAccepts tid (b(k := x)) user = (r, d'))
       \<and> users d' = users d \<and> projects d' = projects d
       \<and> project_members d' = project_members d \<and> invitations d' = invitations d"
proof (intro conjI allI impI)
  fix c assume "c \<notin> set allowedFields \<union> {''completed_at'', ''updated_at''}"
  then show "map (\<lambda>row. row c) (tasks d') = map (\<lambda>row. row c) (tasks d)"
    using putTask_frame[OF assms, of c] by simp
next
  fix k x assume "k \<notin> set allowedFields \<union> camel ` set allowedFields"
  then show "putTask d now stringify dbAccepts tid (b(k := x)) user = (r, d')"
    using putTask_ignores[of k] assms by simp
next
  show "users d' = users d" using putTask_cases[OF assms] by (auto simp: updateQuery_tables)
  show "projects d' = projects d" using putTask_cases[OF assms] by (auto simp: updateQuery_tables)
  show "project_members d' = project_members d"
    using putTask_cases[OF assms] by (auto simp: updateQuery_tables)
  show "invitations d' = invitations d"
    using putTask_cases[OF assms] by (auto simp: updateQuery_tables)
qed

theorem C10_update_allowlist_witness:
  "code (fst (putTask exDb 100 exStringify exAccepts ''t1'' exBody userO)) = 200
   \<and> map (\<lambda>row. row ''title'')
         (tasks (snd (putTask exDb 100 exStringify exAccepts ''t1'' exBody userO)))
       = [JStr ''Final'']
   \<and> map (\<lambda>row. row ''tags'')
         (tasks (snd (putTask exDb 100 exStringify exAccepts ''t1'' exBody userO)))
       = [JArr [JStr ''alpha'']]
   \<and> map (\<lambda>row. row ''project_id'')
         (tasks (snd (putTask exDb 100 exStringify exAccepts ''t1'' exBody userO)))
       = [JStr ''p1'']
   \<and> putTask exDb 100 exStringify exAccepts ''t1'' (exBody(''completed_at'' := None)) userO
       = putTask exDb 100 exStringify exAccepts ''t1'' exBody userO"
proof -
  let ?R = "putTask exDb 100 exStringify exAccepts ''t1'' exBody userO"
  have e: "?R = (fst ?R, snd ?R)" by simp
  note th = C10_update_allowlist[OF e]
  have tags: "map (\<lambda>row. row ''tags'') (tasks (snd ?R)) = map (\<lambda>row. row ''tags'') (tasks exDb)"
    using th by (simp add: allowedFields_def)
  have pid: "map (\<lambda>row. row ''project_id'') (tasks (snd ?R))
             = map (\<lambda>row. row ''project_id'') (tasks exDb)"
    using th by (simp add: allowedFields_def)
  have "''completed_at'' \<notin> set allowedFields \<union> set (map camel allowedFields)"
    unfolding camel_allowedFields by (simp add: allowedFields_def)
  then have ign: "putTask exDb 100 exStringify exAccepts ''t1'' (exBody(''completed_at'' := None)) userO = ?R"
    using th by simp
  have c: "code (fst ?R) = 200" by code_simp
  have t: "map (\<lambda>row. row ''title'') (tasks (snd ?R)) = [JStr ''Final'']" by code_simp
  have t0: "map (\<lambda>row. row ''tags'') (tasks exDb) = [JArr [JStr ''alpha'']]" by code_simp
  have p0: "map (\<lambda>row. row ''project_id'') (tasks exDb) = [JStr ''p1'']" by code_simp
  show ?thesis using c t tags pid ign t0 p0 by simp
qed

section \<open>Who may edit a task, and the completion time\<close>

lemma taskQuery_Cons:
  assumes "taskQuery d tid userId = ((t, p), m) # rest"
  shows "t \<in> set (tasks d) \<and> t ''id'' = JStr tid \<and> p \<in> set (projects d)
         \<and> JStr (p_id p) = t ''project_id''
         \<and> (m \<noteq> None \<longleftrightarrow>
              (\<exists>pm\<in>set (project_members d). pm_project_id pm = p_id p \<and> pm_user_id pm = userId))"
proof -
  have "((t, p), m) \<in> set (taskQuery d tid userId)" by (simp add: assms)
  then have tid: "t ''id'' = JStr tid"
    and j: "((t, p), m) \<in> set (leftJoin
              (innerJoin (tasks d) (projects d) (\<lambda>t p. JStr (p_id p) = t ''project_id''))
              (project_members d)
              (\<lambda>(t, p) pm. pm_project_id pm = p_id p \<and> pm_user_id pm = userId))"
    by (auto simp: taskQuery_def)
  from j tid show ?thesis by (cases m) (auto simp: leftJoin_set innerJoin_set)
qed

lemma canEditRoute_table:
  assumes "taskQuery d tid userId = ((t, p), m) # rest"
  shows "canEditRoute t p m userId \<longleftrightarrow>
           owner_id p = userId \<or> t ''assignee_id'' = JStr userId \<or>
           ((\<exists>pm\<in>set (project_members d). pm_project_id pm = p_id p \<and> pm_user_id pm = userId)
              \<and> flag (p_settings p) allowMemberTaskEdit)"
  using taskQuery_Cons[OF assms] by (simp add: canEditRoute_def)

lemma putTask_forbidden:
  assumes "taskQuery d tid (u_id user) = ((t, p), m) # rest"
  shows "(code (fst (putTask d now s acc tid b user)) = 403) = (\<not> canEditRoute t p m (u_id user))"
  unfolding putTask_Cons[OF assms] by simp

lemma updateTask_Some:
  assumes "findIndex (\<lambda>t. taskId t = tid) (TASKS st) = Some k"
    and "getProject st (t_projectId (TASKS st ! k)) userId = Some pr"
  shows "updateTask st w now tid u userId =
     (if \<not> canEdit pr (TASKS st ! k) userId
      then Inl (Error ''You do not have permission to edit this task'')
      else Inr (Some (if u_status u = Some Completed \<and> t_status (TASKS st ! k) \<noteq> Completed
                      then (mergeTask (TASKS st ! k) u now)\<lparr>completedAt := Some now\<rparr>
                      else mergeTask (TASKS st ! k) u now),
                saveTasks w st ((TASKS st)[k :=
                     (if u_status u = Some Completed \<and> t_status (TASKS st ! k) \<noteq> Completed
                      then (mergeTask (TASKS st ! k) u now)\<lparr>completedAt := Some now\<rparr>
                      else mergeTask (TASKS st ! k) u now)])))"
  by (simp add: updateTask_def assms Let_def)

lemma updateTask_hidden:
  assumes "findIndex (\<lambda>t. taskId t = tid) (TASKS st) = Some k"
    and "getProject st (t_projectId (TASKS st ! k)) userId = None"
  shows "updateTask st w now tid u userId = Inl (Error ''Project not found or access denied'')"
  by (simp add: updateTask_def assms Let_def)

lemma exTaskQuery:
  "taskQuery exDb ''t1'' userId =
     [((exRow, exProjectRow),
       if userId = ''o'' then Some \<lparr>pm_project_id = ''p1'', pm_user_id = ''o''\<rparr>
       else if userId = ''m'' then Some \<lparr>pm_project_id = ''p1'', pm_user_id = ''m''\<rparr>
       else None)]"
  by (auto simp: taskQuery_def innerJoin_def leftJoin_def exDb_def exRow_def exProjectRow_def)

text \<open>
  C2 (as amended). The server refuses a task edit with 403 exactly when the actor is not the
  owner, not the assignee, and not a member of a project with \<open>allowMemberTaskEdit\<close>. The
  client's \<open>updateTask\<close> throws exactly when the actor is not the owner and not at once a
  member, the assignee, and in a project with \<open>allowMemberTaskEdit\<close>.
\<close>

theorem C2_can_edit_task:
  "(taskQuery d tid (u_id user) = ((t, p), m) # rest \<longrightarrow>
      (code (fst (putTask d now stringify dbAccepts tid b user)) = 403)
        = (\<not> (owner_id p = u_id user \<or> t ''assignee_id'' = JStr (u_id user)
               \<or> ((\<exists>pm\<in>set (project_members d).
                       pm_project_id pm = p_id p \<and> pm_user_id pm = u_id user)
                    \<and> flag (p_settings p) allowMemberTaskEdit))))
   \<and> (findIndex (\<lambda>t. taskId t = tid') (TASKS st) = Some k
        \<and> find (\<lambda>p. projectId p = t_projectId (TASKS st ! k)) (PROJECTS st) = Some pr \<longrightarrow>
        isl (updateTask st w now tid' u userId)
          = (\<not> (ownerId pr = userId
                 \<or> (userId \<in> set (members pr) \<and> assignee (TASKS st ! k) = Some userId
                      \<and> flag (settings pr) allowMemberTaskEdit))))"
proof (intro conjI impI)
  assume q: "taskQuery d tid (u_id user) = ((t, p), m) # rest"
  show "(code (fst (putTask d now stringify dbAccepts tid b user)) = 403)
        = (\<not> (owner_id p = u_id user \<or> t ''assignee_id'' = JStr (u_id user)
               \<or> ((\<exists>pm\<in>set (project_members d).
                       pm_project_id pm = p_id p \<and> pm_user_id pm = u_id user)
                    \<and> flag (p_settings p) allowMemberTaskEdit)))"
    unfolding putTask_forbidden[OF q] canEditRoute_table[OF q] ..
next
  assume a: "findIndex (\<lambda>t. taskId t = tid') (TASKS st) = Some k
        \<and> find (\<lambda>p. projectId p = t_projectId (TASKS st ! k)) (PROJECTS st) = Some pr"
  then have k: "findIndex (\<lambda>t. taskId t = tid') (TASKS st) = Some k"
    and f: "find (\<lambda>p. projectId p = t_projectId (TASKS st ! k)) (PROJECTS st) = Some pr"
    by simp_all
  show "isl (updateTask st w now tid' u userId)
          = (\<not> (ownerId pr = userId
                 \<or> (userId \<in> set (members pr) \<and> assignee (TASKS st ! k) = Some userId
                      \<and> flag (settings pr) allowMemberTaskEdit)))"
  proof (cases "ownerId pr = userId \<or> userId \<in> set (members pr)")
    case True
    then have g: "getProject st (t_projectId (TASKS st ! k)) userId = Some pr"
      by (simp add: getProject_find[OF f])
    show ?thesis unfolding updateTask_Some[OF k g] using True
      by (auto simp: canEdit_def)
  next
    case False
    then have g: "getProject st (t_projectId (TASKS st ! k)) userId = None"
      by (simp add: getProject_find[OF f])
    show ?thesis unfolding updateTask_hidden[OF k g] using False by simp
  qed
qed

theorem C2_can_edit_task_witness:
  "code (fst (putTask exDb 100 exStringify exAccepts ''t1'' exBody userA)) = 403
   \<and> isl (updateTask exStore allWrites 100 ''t1'' noUpdates ''a'')
   \<and> \<not> isl (updateTask exStore allWrites 100 ''t1'' noUpdates ''m'')"
proof -
  have q: "taskQuery exDb ''t1'' (u_id userA) = ((exRow, exProjectRow), None) # []"
    unfolding exTaskQuery by (simp add: userA_def)
  have n: "\<not> (owner_id exProjectRow = u_id userA \<or> exRow ''assignee_id'' = JStr (u_id userA)
               \<or> ((\<exists>pm\<in>set (project_members exDb).
                       pm_project_id pm = p_id exProjectRow \<and> pm_user_id pm = u_id userA)
                    \<and> flag (p_settings exProjectRow) allowMemberTaskEdit))"
    by code_simp
  have h: "findIndex (\<lambda>t. taskId t = ''t1'') (TASKS exStore) = Some 0
        \<and> find (\<lambda>p. projectId p = t_projectId (TASKS exStore ! 0)) (PROJECTS exStore) = Some exProject"
    by code_simp
  have na: "\<not> (ownerId exProject = ''a''
                 \<or> (''a'' \<in> set (members exProject) \<and> assignee (TASKS exStore ! 0) = Some ''a''
                      \<and> flag (settings exProject) allowMemberTaskEdit))"
    by code_simp
  have ym: "\<not> \<not> (ownerId exProject = ''m''
                 \<or> (''m'' \<in> set (members exProject) \<and> assignee (TASKS exStore ! 0) = Some ''m''
                      \<and> flag (settings exProject) allowMemberTaskEdit))"
    by code_simp
  note c1 = C2_can_edit_task[where d=exDb and tid="''t1''" and user=userA and t=exRow
              and p=exProjectRow and m=None and rest="[]" and now=100 and stringify=exStringify
              and dbAccepts=exAccepts and b=exBody,
              THEN conjunct1, THEN mp, OF q, THEN iffD2, OF n]
  note c2 = C2_can_edit_task[where st=exStore and tid'="''t1''" and k=0 and pr=exProject
              and w=allWrites and now=100 and u=noUpdates and userId="''a''",
              THEN conjunct2, THEN mp, OF h, THEN iffD2, OF na]
  note e3 = C2_can_edit_task[where st=exStore and tid'="''t1''" and k=0 and pr=exProject
              and w=allWrites and now=100 and u=noUpdates and userId="''m''",
              THEN conjunct2, THEN mp, OF h]
  have c3: "\<not> isl (updateTask exStore allWrites 100 ''t1'' noUpdates ''m'')"
    using e3 ym by (rule_tac notI) (drule iffD1, assumption, erule notE, assumption)
  show ?thesis using c1 c2 c3 by (intro conjI)
qed

text \<open>
  The claim as stated fails on the server: member \<open>m\<close>, who is neither the owner nor the
  assignee of task \<open>t1\<close>, edits it in a project with \<open>allowMemberTaskEdit\<close>.
\<close>

theorem C2_counterexample:
  "code (fst (putTask exDb 100 exStringify exAccepts ''t1'' exBody userM)) = 200
   \<and> (tasks (snd (putTask exDb 100 exStringify exAccepts ''t1'' exBody userM)) ! 0) ''title''
       = JStr ''Final''
   \<and> u_id userM = ''m''
   \<and> owner_id (projects exDb ! 0) = ''o''
   \<and> (tasks exDb ! 0) ''assignee_id'' = JStr ''o''
   \<and> flag (p_settings (projects exDb ! 0)) allowMemberTaskEdit = True"
  by code_simp

lemma setColumns_append: "setColumns (xs @ ys) r = setColumns ys (setColumns xs r)"
  by (simp add: setColumns_def)

lemma completed_at_not_allowed: "''completed_at'' \<notin> set allowedFields"
  by (simp add: allowedFields_def)

lemma setColumns_completed_at:
  "setColumns (updateFields s b t now) r ''completed_at'' =
     (if b ''status'' = Some (JStr ''completed'') \<and> t ''status'' \<noteq> JStr ''completed''
      then JTime now else r ''completed_at'')"
proof -
  have "fst ` set (concat (map (assignment s b) allowedFields)) \<subseteq> set allowedFields"
    using assignment_cols[of s b] by fastforce
  then have "''completed_at'' \<notin> fst ` set (concat (map (assignment s b) allowedFields))"
    using completed_at_not_allowed by blast
  then have "setColumns (concat (map (assignment s b) allowedFields)) r ''completed_at''
               = r ''completed_at''"
    by (rule setColumns_other)
  then show ?thesis
    unfolding updateFields_def setColumns_append by (simp add: setColumns_def)
qed

lemma updateQuery_completed_at:
  "map (\<lambda>row. row ''completed_at'') (tasks (updateQuery d now tid (updateFields s b t now)))
     = map (\<lambda>row. if row ''id'' = JStr tid \<and> b ''status'' = Some (JStr ''completed'')
                       \<and> t ''status'' \<noteq> JStr ''completed''
                    then JTime now else row ''completed_at'') (tasks d)"
  by (simp add: updateQuery_def setColumns_completed_at)

lemma putTask_ok:
  assumes "taskQuery d tid (u_id user) = ((t, p), m) # rest"
    and "putTask d now s acc tid b user = (r, d')"
  shows "(code r = 200 \<longrightarrow> d' = updateQuery d now tid (updateFields s b t now))
         \<and> (code r \<noteq> 200 \<longrightarrow> d' = d)"
  using assms(2) unfolding putTask_Cons[OF assms(1)]
  by (auto split: if_splits)

lemma mergeTask_completedAt:
  "completedAt (mergeTask t u now) = spread (completedAt t) (u_completedAt u)"
  by (simp add: mergeTask_def)

text \<open>
  C8 (as amended). An update assigns the completion time exactly when the requested status
  is completed and the stored status is not. Server: on a 200 answer \<open>completed_at\<close> of the
  updated rows is the current time in that case and is unchanged otherwise; any other answer
  leaves the database unchanged. Client: the returned task has \<open>completedAt = now\<close> in that
  case, and otherwise keeps its \<open>completedAt\<close> when \<open>updates\<close> carries no \<open>completedAt\<close>.
\<close>

theorem C8_completed_at:
  "(taskQuery d tid (u_id user) = ((t, p), m) # rest
      \<and> putTask d now stringify dbAccepts tid b user = (r, d') \<longrightarrow>
      (code r = 200 \<longrightarrow>
         map (\<lambda>row. row ''completed_at'') (tasks d')
           = map (\<lambda>row. if row ''id'' = JStr tid \<and> b ''status'' = Some (JStr ''completed'')
                             \<and> t ''status'' \<noteq> JStr ''completed''
                          then JTime now else row ''completed_at'') (tasks d))
      \<and> (code r \<noteq> 200 \<longrightarrow> d' = d))
   \<and> (findIndex (\<lambda>t. taskId t = tid') (TASKS st) = Some k
        \<and> updateTask st w now' tid' u userId = Inr (Some t', st') \<longrightarrow>
        (u_status u = Some Completed \<and> t_status (TASKS st ! k) \<noteq> Completed \<longrightarrow>
           completedAt t' = Some now')
        \<and> (\<not> (u_status u = Some Completed \<and> t_status (TASKS st ! k) \<noteq> Completed)
             \<and> u_completedAt u = None \<longrightarrow>
           completedAt t' = completedAt (TASKS st ! k))
        \<and> (w KTASKS \<longrightarrow> TASKS st' = (TASKS st)[k := t']))"
proof (intro conjI impI)
  assume a: "taskQuery d tid (u_id user) = ((t, p), m) # rest
      \<and> putTask d now stringify dbAccepts tid b user = (r, d')"
  note ok = putTask_ok[OF conjunct1[OF a] conjunct2[OF a]]
  {
    assume "code r = 200"
    with ok have "d' = updateQuery d now tid (updateFields stringify b t now)" by simp
    then show "map (\<lambda>row. row ''completed_at'') (tasks d')
           = map (\<lambda>row. if row ''id'' = JStr tid \<and> b ''status'' = Some (JStr ''completed'')
                             \<and> t ''status'' \<noteq> JStr ''completed''
                          then JTime now else row ''completed_at'') (tasks d)"
      by (simp only: updateQuery_completed_at)
  }
  {
    assume "code r \<noteq> 200"
    with ok show "d' = d" by simp
  }
next
  assume a: "findIndex (\<lambda>t. taskId t = tid') (TASKS st) = Some k
        \<and> updateTask st w now' tid' u userId = Inr (Some t', st')"
  then have k: "findIndex (\<lambda>t. taskId t = tid') (TASKS st) = Some k"
    and r: "updateTask st w now' tid' u userId = Inr (Some t', st')" by simp_all
  let ?c = "u_status u = Some Completed \<and> t_status (TASKS st ! k) \<noteq> Completed"
  let ?new = "if ?c then (mergeTask (TASKS st ! k) u now')\<lparr>completedAt := Some now'\<rparr>
              else mergeTask (TASKS st ! k) u now'"
  have res: "t' = ?new \<and> st' = saveTasks w st ((TASKS st)[k := ?new])"
  proof (cases "getProject st (t_projectId (TASKS st ! k)) userId")
    case None
    from r show ?thesis unfolding updateTask_hidden[OF k None] by simp
  next
    case (Some pr)
    show ?thesis
    proof (cases "canEdit pr (TASKS st ! k) userId")
      case True
      have eq: "updateTask st w now' tid' u userId
                  = Inr (Some ?new, saveTasks w st ((TASKS st)[k := ?new]))"
        unfolding updateTask_Some[OF k Some] using True by (simp only: not_True_eq_False if_False)
      from trans[OF r[symmetric] eq] show ?thesis
        by (simp only: sum.inject prod.inject option.inject)
    next
      case False
      from r show ?thesis unfolding updateTask_Some[OF k Some] using False by simp
    qed
  qed
  {
    assume "?c"
    then show "completedAt t' = Some now'" using res by simp
  }
  {
    assume "\<not> ?c \<and> u_completedAt u = None"
    then show "completedAt t' = completedAt (TASKS st ! k)"
      using res by (auto simp: mergeTask_completedAt spread_def)
  }
  {
    assume "w KTASKS"
    then show "TASKS st' = (TASKS st)[k := t']" using res by (simp add: saveTasks_def)
  }
qed

theorem C8_completed_at_witness:
  "map (\<lambda>row. row ''completed_at'')
     (tasks (snd (putTask exDb 100 exStringify exAccepts ''t1''
        (Map.empty(''status'' \<mapsto> JStr ''completed'')) userO))) = [JTime 100]
   \<and> map (\<lambda>row. row ''completed_at'')
       (tasks (snd (putTask exDb 100 exStringify exAccepts ''t1'' exBody userO))) = [JNull]
   \<and> updateTask exStore allWrites 100 ''t1'' (noUpdates\<lparr>u_status := Some Completed\<rparr>) ''o''
       = Inr (Some (exTask\<lparr>t_status := Completed, completedAt := Some 100, t_updatedAt := 100\<rparr>),
              exStore\<lparr>TASKS := [exTask\<lparr>t_status := Completed, completedAt := Some 100,
                                         t_updatedAt := 100\<rparr>]\<rparr>)
   \<and> completedAt (exTask\<lparr>t_status := Completed, completedAt := Some 100, t_updatedAt := 100\<rparr>)
       = Some 100"
proof -
  let ?b = "Map.empty(''status'' \<mapsto> JStr ''completed'')"
  let ?R = "putTask exDb 100 exStringify exAccepts ''t1'' ?b userO"
  let ?S = "putTask exDb 100 exStringify exAccepts ''t1'' exBody userO"
  let ?T = "exTask\<lparr>t_status := Completed, completedAt := Some 100, t_updatedAt := 100\<rparr>"
  have q: "taskQuery exDb ''t1'' (u_id userO)
             = ((exRow, exProjectRow), Some \<lparr>pm_project_id = ''p1'', pm_user_id = ''o''\<rparr>) # []"
    unfolding exTaskQuery by (simp add: userO_def)
  have hR: "taskQuery exDb ''t1'' (u_id userO)
             = ((exRow, exProjectRow), Some \<lparr>pm_project_id = ''p1'', pm_user_id = ''o''\<rparr>) # []
          \<and> ?R = (fst ?R, snd ?R)" using q by simp
  have hS: "taskQuery exDb ''t1'' (u_id userO)
             = ((exRow, exProjectRow), Some \<lparr>pm_project_id = ''p1'', pm_user_id = ''o''\<rparr>) # []
          \<and> ?S = (fst ?S, snd ?S)" using q by simp
  have cR: "code (fst ?R) = 200" and cS: "code (fst ?S) = 200" by code_simp+
  note eR = C8_completed_at[where d=exDb and tid="''t1''" and user=userO and t=exRow
              and p=exProjectRow and m="Some \<lparr>pm_project_id = ''p1'', pm_user_id = ''o''\<rparr>"
              and rest="[]" and now=100 and stringify=exStringify and dbAccepts=exAccepts
              and b="?b" and r="fst ?R" and d'="snd ?R",
              THEN conjunct1, THEN mp, OF hR, THEN conjunct1, THEN mp, OF cR]
  note eS = C8_completed_at[where d=exDb and tid="''t1''" and user=userO and t=exRow
              and p=exProjectRow and m="Some \<lparr>pm_project_id = ''p1'', pm_user_id = ''o''\<rparr>"
              and rest="[]" and now=100 and stringify=exStringify and dbAccepts=exAccepts
              and b=exBody and r="fst ?S" and d'="snd ?S",
              THEN conjunct1, THEN mp, OF hS, THEN conjunct1, THEN mp, OF cS]
  have vR: "map (\<lambda>row. if row ''id'' = JStr ''t1'' \<and> ?b ''status'' = Some (JStr ''completed'')
                             \<and> exRow ''status'' \<noteq> JStr ''completed''
                          then JTime 100 else row ''completed_at'') (tasks exDb) = [JTime 100]"
    by code_simp
  have vS: "map (\<lambda>row. if row ''id'' = JStr ''t1'' \<and> exBody ''status'' = Some (JStr ''completed'')
                             \<and> exRow ''status'' \<noteq> JStr ''completed''
                          then JTime 100 else row ''completed_at'') (tasks exDb) = [JNull]"
    by code_simp
  note c1 = trans[OF eR vR]
  note c2 = trans[OF eS vS]
  have u: "findIndex (\<lambda>t. taskId t = ''t1'') (TASKS exStore) = Some 0
        \<and> updateTask exStore allWrites 100 ''t1'' (noUpdates\<lparr>u_status := Some Completed\<rparr>) ''o''
            = Inr (Some ?T, exStore\<lparr>TASKS := [?T]\<rparr>)"
    by code_simp
  have tr: "u_status (noUpdates\<lparr>u_status := Some Completed\<rparr>) = Some Completed
              \<and> t_status (TASKS exStore ! 0) \<noteq> Completed"
    by code_simp
  note c4 = C8_completed_at[where st=exStore and tid'="''t1''" and k=0 and w=allWrites
              and now'=100 and u="noUpdates\<lparr>u_status := Some Completed\<rparr>" and userId="''o''"
              and t'="?T" and st'="exStore\<lparr>TASKS := [?T]\<rparr>",
              THEN conjunct2, THEN mp, OF u, THEN conjunct1, THEN mp, OF tr]
  show ?thesis using c1 c2 u[THEN conjunct2] c4 by (intro conjI)
qed

text \<open>
  The claim as stated fails: a task completed at 10, reopened at 20 and completed again at
  30 has its completion time assigned twice; and on the client an update of a completed
  task that carries a \<open>completedAt\<close> field replaces the completion time.
\<close>

theorem C8_counterexample:
  "map completedAt (TASKS (runUpdates exStore allWrites ''t1'' ''o''
       [(10, noUpdates\<lparr>u_status := Some Completed\<rparr>)])) = [Some 10]
   \<and> map completedAt (TASKS (runUpdates exStore allWrites ''t1'' ''o''
       [(10, noUpdates\<lparr>u_status := Some Completed\<rparr>),
        (20, noUpdates\<lparr>u_status := Some InProgress\<rparr>),
        (30, noUpdates\<lparr>u_status := Some Completed\<rparr>)])) = [Some 30]
   \<and> map completedAt (TASKS (runUpdates exStore allWrites ''t1'' ''o''
       [(10, noUpdates\<lparr>u_status := Some Completed\<rparr>),
        (20, noUpdates\<lparr>u_description := Some ''edited'', u_completedAt := Some (Some 99)\<rparr>)]))
       = [Some 99]"
  by code_simp

section \<open>Accepting and rejecting an invitation\<close>

lemma invitationQuery_Nil:
  "invitationQuery d now invId = [] \<longleftrightarrow>
     \<not> (\<exists>i\<in>set (invitations d). inv_id i = invId \<and> status i = pending \<and> now < expires_at i
            \<and> (\<exists>p\<in>set (projects d). p_id p = project_id i))"
proof -
  have "invitationQuery d now invId = [] \<longleftrightarrow>
     \<not> (\<exists>i p. (i, p) \<in> set (innerJoin (invitations d) (projects d) (\<lambda>i p. p_id p = project_id i))
             \<and> inv_id i = invId \<and> status i = pending \<and> now < expires_at i)"
    by (auto simp: invitationQuery_def filter_empty_conv)
  then show ?thesis by (auto simp: innerJoin_set)
qed

lemma invitationQuery_Cons:
  assumes "invitationQuery d now invId = (i, p) # rest"
  shows "i \<in> set (invitations d) \<and> inv_id i = invId \<and> status i = pending \<and> now < expires_at i
         \<and> p \<in> set (projects d) \<and> p_id p = project_id i"
proof -
  have "(i, p) \<in> set (invitationQuery d now invId)" by (simp add: assms)
  then show ?thesis by (auto simp: invitationQuery_def innerJoin_set)
qed

lemma acceptRoute_Nil:
  assumes "invitationQuery d now invId = []" "\<not> fails SelectInvitation"
  shows "acceptRoute d now fails invId user
           = (Response 404 ''Invitation not found, expired, or already processed'' None, d)"
  by (simp add: acceptRoute_def assms)

lemma acceptRoute_Cons:
  assumes "invitationQuery d now invId = (i, p) # rest" "\<not> fails SelectInvitation"
  shows "acceptRoute d now fails invId user =
     (if invitee_email i \<noteq> u_email user
      then (Response 403 ''This invitation is not for your email address'' None, d)
      else if fails MemberCheck then (failed, d)
      else if memberCheckQuery d (project_id i) (u_id user) \<noteq> []
      then (if fails UpdateInvitation then (failed, d)
            else (Response 200 ''You are already a member of this project'' None,
                  markAccepted d now invId))
      else if fails Connect then (failed, d)
      else if fails Begin \<or> fails InsertMember \<or> fails UpdateInvitationTx \<or> fails Commit
      then (failed, d)
      else (Response 200
              (''Successfully joined '' @ [CHR 0x22] @ p_title p @ [CHR 0x22] @ '' project!'')
              (Some (project_id i)),
            markAccepted (insertMember d (project_id i) (u_id user)) now invId))"
  by (simp add: acceptRoute_def assms)

lemma acceptRoute_fault:
  assumes "fails SelectInvitation"
  shows "acceptRoute d now fails invId user = (failed, d)"
  by (simp add: acceptRoute_def assms)

lemma code_failed: "code failed = 500"
  by (simp add: failed_def)

lemma acceptInvitation_result:
  "fst (acceptInvitation st w now invId userId) =
     (\<exists>k. findIndex (\<lambda>i. invitationId i = invId) (INVITATIONS st) = Some k
          \<and> i_status (INVITATIONS st ! k) = Pending \<and> now < expiresAt (INVITATIONS st ! k))"
proof (cases "findIndex (\<lambda>i. invitationId i = invId) (INVITATIONS st)")
  case None
  then show ?thesis by (simp add: acceptInvitation_def)
next
  case (Some k)
  show ?thesis
  proof (cases "i_status (INVITATIONS st ! k) \<noteq> Pending \<or> expiresAt (INVITATIONS st ! k) \<le> now")
    case True
    then show ?thesis unfolding acceptInvitation_def Some by (auto simp: Let_def)
  next
    case False
    then show ?thesis unfolding acceptInvitation_def Some
      by (auto simp: Let_def split: option.splits)
  qed
qed

text \<open>
  C3 (as amended). With no database fault, the server's accept answers the one 404
  ``Invitation not found, expired, or already processed'' exactly when no invitation with
  that id is pending, unexpired (\<open>now < expires_at\<close>) and attached to an existing project;
  for the invitation it finds, it answers 403 exactly when the acting user's e-mail differs
  from the invitee's, and 200 exactly when it is the same. The client's \<open>acceptInvitation\<close>
  takes a user id and no e-mail; it returns \<open>true\<close> exactly when the first invitation with
  that id is pending and unexpired, and \<open>false\<close> otherwise.
\<close>

theorem C3_accept_failures:
  "(fst (acceptRoute d now (\<lambda>s. False) invId user)
       = Response 404 ''Invitation not found, expired, or already processed'' None)
     = (\<not> (\<exists>i\<in>set (invitations d). inv_id i = invId \<and> status i = pending \<and> now < expires_at i
              \<and> (\<exists>p\<in>set (projects d). p_id p = project_id i)))
   \<and> (invitationQuery d now invId = (i, p) # rest \<longrightarrow>
        (fst (acceptRoute d now (\<lambda>s. False) invId user)
           = Response 403 ''This invitation is not for your email address'' None)
          = (invitee_email i \<noteq> u_email user)
        \<and> (code (fst (acceptRoute d now (\<lambda>s. False) invId user)) = 200)
          = (invitee_email i = u_email user))
   \<and> fst (acceptInvitation st w now invId userId)
       = (\<exists>k. findIndex (\<lambda>i. invitationId i = invId) (INVITATIONS st) = Some k
            \<and> i_status (INVITATIONS st ! k) = Pending \<and> now < expiresAt (INVITATIONS st ! k))"
proof (intro conjI impI)
  show "(fst (acceptRoute d now (\<lambda>s. False) invId user)
       = Response 404 ''Invitation not found, expired, or already processed'' None)
     = (\<not> (\<exists>i\<in>set (invitations d). inv_id i = invId \<and> status i = pending \<and> now < expires_at i
              \<and> (\<exists>p\<in>set (projects d). p_id p = project_id i)))"
  proof (cases "invitationQuery d now invId")
    case Nil
    then show ?thesis
      unfolding invitationQuery_Nil[symmetric] by (simp add: acceptRoute_Nil)
  next
    case (Cons a rest')
    obtain i' p' where a: "a = (i', p')" by (cases a)
    have "code (fst (acceptRoute d now (\<lambda>s. False) invId user)) \<noteq> 404"
      unfolding acceptRoute_Cons[OF Cons[unfolded a], of "\<lambda>s. False", simplified] by simp
    then have "fst (acceptRoute d now (\<lambda>s. False) invId user)
       \<noteq> Response 404 ''Invitation not found, expired, or already processed'' None"
      by (metis response.sel(1))
    then show ?thesis unfolding invitationQuery_Nil[symmetric] Cons by simp
  qed
next
  assume q: "invitationQuery d now invId = (i, p) # rest"
  note r = acceptRoute_Cons[OF q, of "\<lambda>s. False", simplified]
  show "(fst (acceptRoute d now (\<lambda>s. False) invId user)
           = Response 403 ''This invitation is not for your email address'' None)
          = (invitee_email i \<noteq> u_email user)"
    unfolding r by simp
  show "(code (fst (acceptRoute d now (\<lambda>s. False) invId user)) = 200)
          = (invitee_email i = u_email user)"
    unfolding r by simp
next
  show "fst (acceptInvitation st w now invId userId)
       = (\<exists>k. findIndex (\<lambda>i. invitationId i = invId) (INVITATIONS st) = Some k
            \<and> i_status (INVITATIONS st ! k) = Pending \<and> now < expiresAt (INVITATIONS st ! k))"
    by (rule acceptInvitation_result)
qed

theorem C3_accept_failures_witness:
  "fst (acceptRoute exDb 100 (\<lambda>s. False) ''nope'' userA)
     = Response 404 ''Invitation not found, expired, or already processed'' None
   \<and> fst (acceptRoute exDb 100 (\<lambda>s. False) ''i1'' userM)
     = Response 403 ''This invitation is not for your email address'' None
   \<and> code (fst (acceptRoute exDb 100 (\<lambda>s. False) ''i1'' userA)) = 200
   \<and> fst (acceptInvitation exStore allWrites 100 ''i1'' ''a'')"
proof -
  have q: "invitationQuery exDb 100 ''i1'' = (hd (invitations exDb), exProjectRow) # []"
    by code_simp
  have n: "\<not> (\<exists>i\<in>set (invitations exDb). inv_id i = ''nope'' \<and> status i = pending
               \<and> 100 < expires_at i \<and> (\<exists>p\<in>set (projects exDb). p_id p = project_id i))"
    by code_simp
  have m: "invitee_email (hd (invitations exDb)) \<noteq> u_email userM" by code_simp
  have a: "invitee_email (hd (invitations exDb)) = u_email userA" by code_simp
  have k: "\<exists>k. findIndex (\<lambda>i. invitationId i = ''i1'') (INVITATIONS exStore) = Some k
            \<and> i_status (INVITATIONS exStore ! k) = Pending
            \<and> 100 < expiresAt (INVITATIONS exStore ! k)"
    by (rule exI[of _ 0]) code_simp
  note c1 = C3_accept_failures[where d=exDb and now=100 and invId="''nope''" and user=userA,
              THEN conjunct1, THEN iffD2, OF n]
  note c2 = C3_accept_failures[where d=exDb and now=100 and invId="''i1''" and user=userM
              and i="hd (invitations exDb)" and p=exProjectRow and rest="[]",
              THEN conjunct2, THEN conjunct1, THEN mp, OF q, THEN conjunct1, THEN iffD2, OF m]
  note c3 = C3_accept_failures[where d=exDb and now=100 and invId="''i1''" and user=userA
              and i="hd (invitations exDb)" and p=exProjectRow and rest="[]",
              THEN conjunct2, THEN conjunct1, THEN mp, OF q, THEN conjunct2, THEN iffD2, OF a]
  note c4 = C3_accept_failures[where st=exStore and w=allWrites and now=100 and invId="''i1''"
              and userId="''a''", THEN conjunct2, THEN conjunct2, THEN iffD2, OF k]
  show ?thesis using c1 c2 c3 c4 by (intro conjI)
qed

text \<open>
  The claim as stated fails: the server answers a missing invitation and an expired one
  with the same 404, not with distinct kinds.
\<close>

theorem C3_counterexample:
  "fst (acceptRoute exDb 100 noFault ''nope'' userA)
     = Response 404 ''Invitation not found, expired, or already processed'' None
   \<and> fst (acceptRoute exDb 2000 noFault ''i1'' userA)
     = Response 404 ''Invitation not found, expired, or already processed'' None
   \<and> code (fst (acceptRoute exDb 100 noFault ''i1'' userA)) = 200"
  by code_simp








lemma ball_image: "(\<And>x. P (f x)) \<Longrightarrow> \<forall>y\<in>f ` A. P y"
  by blast

lemma markAccepted_invitations:
  "invitations (markAccepted d now invId)
     = map (\<lambda>i. if inv_id i = invId then i\<lparr>status := accepted, accepted_at := Some now\<rparr> else i)
         (invitations d)"
  by (simp add: markAccepted_def)

lemma markAccepted_status:
  "\<forall>i\<in>set (invitations (markAccepted d now invId)). inv_id i = invId \<longrightarrow> status i = accepted"
proof -
  let ?f = "\<lambda>i. if inv_id i = invId then i\<lparr>status := accepted, accepted_at := Some now\<rparr> else i"
  have "inv_id (?f x) = invId \<longrightarrow> status (?f x) = accepted" for x :: invitation_row
    by (cases "inv_id x = invId") simp_all
  then have "\<forall>i\<in>?f ` set (invitations d). inv_id i = invId \<longrightarrow> status i = accepted"
    by (rule ball_image[of "\<lambda>i. inv_id i = invId \<longrightarrow> status i = accepted" ?f])
  then show ?thesis unfolding markAccepted_invitations set_map .
qed

lemma markAccepted_keeps:
  assumes "i \<in> set (invitations d)" "inv_id i = invId"
  shows "\<exists>i'\<in>set (invitations (markAccepted d now invId)).
           inv_id i' = invId \<and> project_id i' = project_id i"
proof -
  let ?f = "\<lambda>i. if inv_id i = invId then i\<lparr>status := accepted, accepted_at := Some now\<rparr> else i"
  have "?f i \<in> ?f ` set (invitations d)" using assms(1) by (rule imageI)
  then have m: "?f i \<in> set (invitations (markAccepted d now invId))"
    unfolding markAccepted_invitations set_map .
  have "inv_id (?f i) = invId \<and> project_id (?f i) = project_id i"
    using assms(2) by simp
  with m show ?thesis by (rule bexI[rotated])
qed

lemma markAccepted_members:
  "project_members (markAccepted d now invId) = project_members d"
  by (simp add: markAccepted_def)

lemma memberCheckQuery_Nil:
  "memberCheckQuery d pid userId \<noteq> [] \<longleftrightarrow>
     (\<exists>pm\<in>set (project_members d). pm_project_id pm = pid \<and> pm_user_id pm = userId)"
  by (auto simp: memberCheckQuery_def filter_empty_conv)

lemma insertMember_member:
  "\<exists>pm\<in>set (project_members (insertMember d pid userId)).
      pm_project_id pm = pid \<and> pm_user_id pm = userId"
  by (simp add: insertMember_def)

lemma insertMember_invitations: "invitations (insertMember d pid userId) = invitations d"
  by (simp add: insertMember_def)

lemma joinedI:
  assumes "\<forall>i\<in>set (invitations d). inv_id i = invId \<longrightarrow> status i = accepted"
    and "i' \<in> set (invitations d)" "inv_id i' = invId"
    and "pm \<in> set (project_members d)" "pm_project_id pm = project_id i'" "pm_user_id pm = userId"
  shows "joined d invId userId"
  unfolding joined_def using assms by blast

lemma acceptRoute_outcomes:
  assumes "acceptRoute d now fails invId user = (r, d')"
    and "invitationQuery d now invId = (i, p) # rest" "\<not> fails SelectInvitation"
  shows "(code r \<noteq> 200 \<and> d' = d)
       \<or> (code r = 200 \<and> memberCheckQuery d (project_id i) (u_id user) \<noteq> []
            \<and> d' = markAccepted d now invId)
       \<or> (code r = 200
            \<and> d' = markAccepted (insertMember d (project_id i) (u_id user)) now invId)"
  using assms(1) unfolding acceptRoute_Cons[of d now invId i p rest fails, OF assms(2,3)]
  by (auto simp: code_failed split: if_splits)

lemma acceptRoute_atomic:
  assumes "acceptRoute d now fails invId user = (r, d')"
  shows "(code r = 200 \<longrightarrow> joined d' invId (u_id user)) \<and> (code r \<noteq> 200 \<longrightarrow> d' = d)"
proof (cases "fails SelectInvitation")
  case True
  with assms show ?thesis by (auto simp: acceptRoute_fault code_failed)
next
  case nf: False
  show ?thesis
  proof (cases "invitationQuery d now invId")
    case Nil
    with assms nf show ?thesis by (auto simp: acceptRoute_Nil)
  next
    case (Cons a rest)
    obtain i p where a: "a = (i, p)" by (cases a)
    note q = Cons[unfolded a]
    from invitationQuery_Cons[OF q] have i: "i \<in> set (invitations d)" "inv_id i = invId" by simp_all
    have j1: "joined (markAccepted d now invId) invId (u_id user)"
      if "memberCheckQuery d (project_id i) (u_id user) \<noteq> []"
    proof -
      from that obtain pm where pm: "pm \<in> set (project_members d)"
        "pm_project_id pm = project_id i" "pm_user_id pm = u_id user"
        unfolding memberCheckQuery_Nil by blast
      from markAccepted_keeps[OF i, of now] obtain i' where
        i': "i' \<in> set (invitations (markAccepted d now invId))" "inv_id i' = invId"
            "project_id i' = project_id i" by blast
      have pm': "pm \<in> set (project_members (markAccepted d now invId))"
        "pm_project_id pm = project_id i'"
        using pm i'(3) by (simp_all add: markAccepted_members)
      show ?thesis
        by (rule joinedI[OF markAccepted_status i'(1,2) pm' pm(3)])
    qed
    have j2: "joined (markAccepted (insertMember d (project_id i) (u_id user)) now invId)
                invId (u_id user)"
    proof -
      let ?d1 = "insertMember d (project_id i) (u_id user)"
      have "i \<in> set (invitations ?d1)" using i(1) by (simp add: insertMember_invitations)
      from markAccepted_keeps[OF this i(2), of now] obtain i' where
        i': "i' \<in> set (invitations (markAccepted ?d1 now invId))" "inv_id i' = invId"
            "project_id i' = project_id i" by blast
      from insertMember_member[of d "project_id i" "u_id user"] obtain pm where
        pm: "pm \<in> set (project_members ?d1)"
        "pm_project_id pm = project_id i" "pm_user_id pm = u_id user" by blast
      have pm': "pm \<in> set (project_members (markAccepted ?d1 now invId))"
        "pm_project_id pm = project_id i'"
        using pm i'(3) by (simp_all add: markAccepted_members)
      show ?thesis
        by (rule joinedI[OF markAccepted_status i'(1,2) pm' pm(3)])
    qed
    from acceptRoute_outcomes[OF assms q nf] show ?thesis
    proof (elim disjE conjE)
      assume "code r \<noteq> 200" "d' = d"
      then show ?thesis by simp
    next
      assume "code r = 200" "memberCheckQuery d (project_id i) (u_id user) \<noteq> []"
        "d' = markAccepted d now invId"
      then show ?thesis using j1 by simp
    next
      assume "code r = 200"
        "d' = markAccepted (insertMember d (project_id i) (u_id user)) now invId"
      then show ?thesis using j2 by simp
    qed
  qed
qed

lemma saveInvitations_projects: "PROJECTS (saveInvitations w st invs) = PROJECTS st"
  by (simp add: saveInvitations_def)

lemma acceptInvitation_valid:
  assumes "findIndex (\<lambda>i. invitationId i = invId) (INVITATIONS st) = Some k"
    and "i_status (INVITATIONS st ! k) = Pending" "now < expiresAt (INVITATIONS st ! k)"
  shows "acceptInvitation st w now invId userId =
     (case findIndex (\<lambda>p. projectId p = i_projectId (INVITATIONS st ! k)) (PROJECTS st) of
        None \<Rightarrow> (True, saveInvitations w st
                          ((INVITATIONS st)[k := (INVITATIONS st ! k)\<lparr>i_status := Accepted\<rparr>]))
      | Some j \<Rightarrow>
          if userId \<notin> set (members (PROJECTS st ! j))
          then (True, saveProjects w
                        (saveInvitations w st
                           ((INVITATIONS st)[k := (INVITATIONS st ! k)\<lparr>i_status := Accepted\<rparr>]))
                        ((PROJECTS st)[j :=
                           (PROJECTS st ! j)\<lparr>members := members (PROJECTS st ! j) @ [userId],
                                              updatedAt := now\<rparr>]))
          else (True, saveInvitations w st
                        ((INVITATIONS st)[k := (INVITATIONS st ! k)\<lparr>i_status := Accepted\<rparr>])))"
proof (cases "findIndex (\<lambda>p. projectId p = i_projectId (INVITATIONS st ! k)) (PROJECTS st)")
  case None
  then show ?thesis using assms
    by (simp add: acceptInvitation_def Let_def saveInvitations_projects)
next
  case (Some j)
  then show ?thesis using assms
    by (simp add: acceptInvitation_def Let_def saveInvitations_projects)
qed

lemma saveProjects_invitations: "INVITATIONS (saveProjects w st ps) = INVITATIONS st"
  by (simp add: saveProjects_def)

lemma acceptInvitation_failure:
  assumes "\<not> fst (acceptInvitation st w now invId userId)"
  shows "snd (acceptInvitation st w now invId userId) = st"
proof (cases "findIndex (\<lambda>i. invitationId i = invId) (INVITATIONS st)")
  case None
  then show ?thesis by (simp add: acceptInvitation_def)
next
  case (Some k)
  from assms have "\<not> (i_status (INVITATIONS st ! k) = Pending \<and> now < expiresAt (INVITATIONS st ! k))"
    unfolding acceptInvitation_result Some by simp
  then show ?thesis unfolding acceptInvitation_def Some by (auto simp: Let_def)
qed

lemma acceptInvitation_both:
  assumes w: "w KINVITATIONS" "w KPROJECTS"
    and k: "findIndex (\<lambda>i. invitationId i = invId) (INVITATIONS st) = Some k"
    and j: "findIndex (\<lambda>p. projectId p = i_projectId (INVITATIONS st ! k)) (PROJECTS st) = Some j"
    and ok: "fst (acceptInvitation st w now invId userId)"
  shows "i_status (INVITATIONS (snd (acceptInvitation st w now invId userId)) ! k) = Accepted
         \<and> userId \<in> set (members (PROJECTS (snd (acceptInvitation st w now invId userId)) ! j))"
proof -
  from ok have v: "i_status (INVITATIONS st ! k) = Pending" "now < expiresAt (INVITATIONS st ! k)"
    unfolding acceptInvitation_result k by simp_all
  from findIndex_Some[OF k] have kl: "k < length (INVITATIONS st)" by simp
  from findIndex_Some[OF j] have jl: "j < length (PROJECTS st)" by simp
  let ?st1 = "saveInvitations w st ((INVITATIONS st)[k := (INVITATIONS st ! k)\<lparr>i_status := Accepted\<rparr>])"
  have p1: "PROJECTS ?st1 = PROJECTS st" by (rule saveInvitations_projects)
  have i1: "i_status (INVITATIONS ?st1 ! k) = Accepted"
    using w(1) kl by (simp add: saveInvitations_def)
  show ?thesis
  proof (cases "userId \<in> set (members (PROJECTS st ! j))")
    case True
    have "acceptInvitation st w now invId userId = (True, ?st1)"
      unfolding acceptInvitation_valid[OF k v] j using True by simp
    then show ?thesis using i1 True p1 by simp
  next
    case False
    let ?p = "(PROJECTS st ! j)\<lparr>members := members (PROJECTS st ! j) @ [userId], updatedAt := now\<rparr>"
    have "acceptInvitation st w now invId userId
            = (True, saveProjects w ?st1 ((PROJECTS st)[j := ?p]))"
      unfolding acceptInvitation_valid[OF k v] j using False by simp
    moreover have "INVITATIONS (saveProjects w ?st1 ((PROJECTS st)[j := ?p])) = INVITATIONS ?st1"
      by (rule saveProjects_invitations)
    moreover have "userId \<in> set (members (PROJECTS (saveProjects w ?st1 ((PROJECTS st)[j := ?p])) ! j))"
      using w(2) jl by (simp add: saveProjects_def)
    ultimately show ?thesis using i1 by simp
  qed
qed

text \<open>
  C1 (as amended). Server: whatever statement of the accept handler fails, either the
  answer is 200 and the database holds both writes (every invitation with that id is
  accepted and the user has a membership row for its project), or the answer is not 200 and
  the database is unchanged. Client: a call that returns \<open>false\<close> leaves the store
  unchanged; a call that returns \<open>true\<close>, with both saves succeeding and the invitation's
  project present in the store, leaves the invitation accepted and the user in the
  project's members.
\<close>

theorem C1_accept_writes:
  "(acceptRoute d now fails invId user = (r, d') \<longrightarrow>
      (code r = 200 \<longrightarrow> joined d' invId (u_id user)) \<and> (code r \<noteq> 200 \<longrightarrow> d' = d))
   \<and> (\<not> fst (acceptInvitation st w now' invId' userId) \<longrightarrow>
        snd (acceptInvitation st w now' invId' userId) = st)
   \<and> (w KINVITATIONS \<and> w KPROJECTS
        \<and> findIndex (\<lambda>i. invitationId i = invId') (INVITATIONS st) = Some k
        \<and> findIndex (\<lambda>p. projectId p = i_projectId (INVITATIONS st ! k)) (PROJECTS st) = Some j
        \<and> fst (acceptInvitation st w now' invId' userId) \<longrightarrow>
        i_status (INVITATIONS (snd (acceptInvitation st w now' invId' userId)) ! k) = Accepted
        \<and> userId \<in> set (members (PROJECTS (snd (acceptInvitation st w now' invId' userId)) ! j)))"
proof (intro conjI impI)
  assume a: "acceptRoute d now fails invId user = (r, d')"
  { assume "code r = 200"
    with acceptRoute_atomic[OF a] show "joined d' invId (u_id user)" by simp }
  { assume "code r \<noteq> 200"
    with acceptRoute_atomic[OF a] show "d' = d" by simp }
next
  assume "\<not> fst (acceptInvitation st w now' invId' userId)"
  then show "snd (acceptInvitation st w now' invId' userId) = st"
    by (rule acceptInvitation_failure)
next
  assume a: "w KINVITATIONS \<and> w KPROJECTS
        \<and> findIndex (\<lambda>i. invitationId i = invId') (INVITATIONS st) = Some k
        \<and> findIndex (\<lambda>p. projectId p = i_projectId (INVITATIONS st ! k)) (PROJECTS st) = Some j
        \<and> fst (acceptInvitation st w now' invId' userId)"
  then have b: "w KINVITATIONS" "w KPROJECTS"
    "findIndex (\<lambda>i. invitationId i = invId') (INVITATIONS st) = Some k"
    "findIndex (\<lambda>p. projectId p = i_projectId (INVITATIONS st ! k)) (PROJECTS st) = Some j"
    "fst (acceptInvitation st w now' invId' userId)" by simp_all
  note c = acceptInvitation_both[OF b]
  show "i_status (INVITATIONS (snd (acceptInvitation st w now' invId' userId)) ! k) = Accepted"
    using c by (rule conjunct1)
  show "userId \<in> set (members (PROJECTS (snd (acceptInvitation st w now' invId' userId)) ! j))"
    using c by (rule conjunct2)
qed

theorem C1_accept_writes_witness:
  "joined (snd (acceptRoute exDb 100 noFault ''i1'' userA)) ''i1'' (u_id userA)
   \<and> snd (acceptRoute exDb 100 (\<lambda>s. s = Commit) ''i1'' userA) = exDb
   \<and> snd (acceptInvitation exStore allWrites 2000 ''i1'' ''a'') = exStore
   \<and> i_status (INVITATIONS (snd (acceptInvitation exStore allWrites 100 ''i1'' ''a'')) ! 0) = Accepted
   \<and> ''a'' \<in> set (members (PROJECTS (snd (acceptInvitation exStore allWrites 100 ''i1'' ''a'')) ! 0))"
proof -
  let ?R = "acceptRoute exDb 100 noFault ''i1'' userA"
  let ?F = "acceptRoute exDb 100 (\<lambda>s. s = Commit) ''i1'' userA"
  have e: "?R = (fst ?R, snd ?R)" and f: "?F = (fst ?F, snd ?F)" by simp_all
  have c: "code (fst ?R) = 200" by code_simp
  have n: "code (fst ?F) \<noteq> 200" by code_simp
  have h2: "\<not> fst (acceptInvitation exStore allWrites 2000 ''i1'' ''a'')" by code_simp
  have h3: "allWrites KINVITATIONS \<and> allWrites KPROJECTS
        \<and> findIndex (\<lambda>i. invitationId i = ''i1'') (INVITATIONS exStore) = Some 0
        \<and> findIndex (\<lambda>p. projectId p = i_projectId (INVITATIONS exStore ! 0)) (PROJECTS exStore) = Some 0
        \<and> fst (acceptInvitation exStore allWrites 100 ''i1'' ''a'')"
    by code_simp
  note c1 = C1_accept_writes[where d=exDb and now=100 and fails=noFault and invId="''i1''"
              and user=userA and r="fst ?R" and d'="snd ?R",
              THEN conjunct1, THEN mp, OF e, THEN conjunct1, THEN mp, OF c]
  note c2 = C1_accept_writes[where d=exDb and now=100 and fails="\<lambda>s. s = Commit"
              and invId="''i1''" and user=userA and r="fst ?F" and d'="snd ?F",
              THEN conjunct1, THEN mp, OF f, THEN conjunct2, THEN mp, OF n]
  note c3 = C1_accept_writes[where st=exStore and w=allWrites and now'=2000 and invId'="''i1''"
              and userId="''a''", THEN conjunct2, THEN conjunct1, THEN mp, OF h2]
  note c4 = C1_accept_writes[where st=exStore and w=allWrites and now'=100 and invId'="''i1''"
              and userId="''a''" and k=0 and j=0, THEN conjunct2, THEN conjunct2, THEN mp, OF h3]
  show ?thesis
    using c1 c2 c3 c4[THEN conjunct1] c4[THEN conjunct2] by (intro conjI)
qed

text \<open>
  The claim as stated fails on the client: when the save of the projects fails (the two
  saves are separate and \<open>saveToStorage\<close> swallows the exception), \<open>acceptInvitation\<close>
  returns \<open>true\<close> with the invitation accepted and user \<open>a\<close> not among the members.
\<close>

theorem C1_counterexample:
  "fst (acceptInvitation exStore projectsFull 100 ''i1'' ''a'') = True
   \<and> i_status (INVITATIONS (snd (acceptInvitation exStore projectsFull 100 ''i1'' ''a'')) ! 0)
       = Accepted
   \<and> members (PROJECTS (snd (acceptInvitation exStore projectsFull 100 ''i1'' ''a'')) ! 0)
       = [''o'', ''m'']"
  by code_simp

end
